theory Spec2Isabelle
  imports Complex_Main "HOL-Library.Sublist" "HOL-Library.Log_Nat"
begin

section \<open>Python values\<close>

text \<open>
  The program is Python. Dictionaries returned by the oracle clients and the JSON body of
  a response are association lists from keys to dynamically typed values. A Python
  \<^verbatim>\<open>float\<close> is the real number it denotes; the arithmetic of floats is defined below. There
  is no NaN and no infinity in the model. A Python \<^verbatim>\<open>str\<close> is a \<^typ>\<open>string\<close>.
\<close>

datatype pyval =
    PNone
  | PBool bool
  | PInt int
  | PFloat real
  | PStr string
  | PList "pyval list"
  | PDict "(string \<times> pyval) list"

type_synonym pydict = "(string \<times> pyval) list"

text \<open>
  Exceptions below \<^verbatim>\<open>Exception\<close> in Python's class hierarchy, each with its message.
  \<^verbatim>\<open>RuntimeError\<close> is kept apart because \<^verbatim>\<open>score\<close> has a handler of its own for it.
  \<^verbatim>\<open>HTTPException\<close> is what an endpoint raises to the framework: a status code and a detail.
\<close>

datatype exn =
    RuntimeError string
  | EnvironmentError string
  | IndexError string
  | TypeError string
  | AttributeError string
  | OverflowError string
  | Exception string

datatype http_exception = HTTPException nat string

text \<open>\<^verbatim>\<open>str(e)\<close>: the message of an exception.\<close>

fun exn_str :: "exn \<Rightarrow> string" where
  "exn_str (RuntimeError m) = m"
| "exn_str (EnvironmentError m) = m"
| "exn_str (IndexError m) = m"
| "exn_str (TypeError m) = m"
| "exn_str (AttributeError m) = m"
| "exn_str (OverflowError m) = m"
| "exn_str (Exception m) = m"

text \<open>\<^verbatim>\<open>isinstance(v, str)\<close>, \<^verbatim>\<open>isinstance(v, list)\<close>, \<^verbatim>\<open>isinstance(v, dict)\<close> and \<^verbatim>\<open>bool(v)\<close>.\<close>

fun isinstance_str :: "pyval \<Rightarrow> bool" where
  "isinstance_str (PStr s) = True"
| "isinstance_str v = False"

fun isinstance_list :: "pyval \<Rightarrow> bool" where
  "isinstance_list (PList xs) = True"
| "isinstance_list v = False"

fun isinstance_dict :: "pyval \<Rightarrow> bool" where
  "isinstance_dict (PDict d) = True"
| "isinstance_dict v = False"

fun truthy :: "pyval \<Rightarrow> bool" where
  "truthy PNone = False"
| "truthy (PBool b) = b"
| "truthy (PInt n) = (n \<noteq> 0)"
| "truthy (PFloat x) = (x \<noteq> 0)"
| "truthy (PStr s) = (s \<noteq> [])"
| "truthy (PList xs) = (xs \<noteq> [])"
| "truthy (PDict d) = (d \<noteq> [])"

text \<open>\<^verbatim>\<open>d.get(k, default)\<close> on a dictionary: the first binding of the key.\<close>

definition dict_get :: "pydict \<Rightarrow> string \<Rightarrow> pyval \<Rightarrow> pyval" where
  "dict_get d k dflt = (case map_of d k of None \<Rightarrow> dflt | Some v \<Rightarrow> v)"

text \<open>\<^verbatim>\<open>v.get(k, default)\<close> on any value: only a dictionary has the method.\<close>

fun py_get :: "pyval \<Rightarrow> string \<Rightarrow> pyval \<Rightarrow> exn + pyval" where
  "py_get (PDict d) k dflt = Inr (dict_get d k dflt)"
| "py_get v k dflt = Inl (AttributeError ''object has no attribute get'')"

text \<open>\<^verbatim>\<open>xs[i]\<close> for \<open>i \<ge> 0\<close>: out of range raises \<^verbatim>\<open>IndexError\<close>.\<close>

definition getitem :: "'a list \<Rightarrow> nat \<Rightarrow> exn + 'a" where
  "getitem xs i = (if i < length xs then Inr (xs ! i) else Inl (IndexError ''index out of range''))"

text \<open>
  \<^verbatim>\<open>round(x)\<close> rounds a float to the nearest integer, a tie to the even one;
  \<^verbatim>\<open>round(x, n)\<close> keeps \<open>n\<close> decimal digits.
\<close>

definition py_round :: "real \<Rightarrow> int" where
  "py_round x =
     (let f = \<lfloor>x\<rfloor>; d = x - of_int f
      in if d < 1 / 2 then f
         else if 1 / 2 < d then f + 1
         else if even f then f else f + 1)"

definition py_round_ndigits :: "real \<Rightarrow> nat \<Rightarrow> real" where
  "py_round_ndigits x n = of_int (py_round (x * 10 ^ n)) / 10 ^ n"

text \<open>
  A Python \<^verbatim>\<open>float\<close> is an IEEE 754 double: a multiple \<open>k * 2 ^ q\<close> with \<open>\<bar>k\<bar> \<le> 2 ^ 53\<close> and
  \<open>q \<ge> - 1074\<close>. For \<open>x \<noteq> 0\<close>, \<open>binade x\<close> is the exponent \<open>e\<close> with \<open>2 ^ e \<le> \<bar>x\<bar> < 2 ^ (e + 1)\<close>,
  and \<open>fl x\<close> is the double nearest to \<open>x\<close>, a tie going to the even one: the rounding of
  every float operation. A float literal, the conversion of an \<^verbatim>\<open>int\<close>, a product and a sum
  of floats are the exact value rounded by \<open>fl\<close>. A result of magnitude \<open>2 ^ 1024\<close> or more
  is not a double (Python gives infinity, or raises for an \<^verbatim>\<open>int\<close>).
\<close>

definition binade :: "real \<Rightarrow> int" where
  "binade x =
     (if 1 \<le> \<bar>x\<bar> then int (floorlog 2 (nat \<lfloor>\<bar>x\<bar>\<rfloor>)) - 1
      else - int (floorlog 2 (nat (\<lceil>1 / \<bar>x\<bar>\<rceil> - 1))))"

definition fl :: "real \<Rightarrow> real" where
  "fl x =
     (if x = 0 then 0
      else let q = max (binade x - 52) (- 1074)
           in of_int (py_round (x / 2 powi q)) * 2 powi q)"

definition fmul :: "real \<Rightarrow> real \<Rightarrow> real" where
  "fmul a b = fl (a * b)"

definition fadd :: "real \<Rightarrow> real \<Rightarrow> real" where
  "fadd a b = fl (a + b)"

section \<open>Computations with a trace of external calls\<close>

text \<open>
  A call of the embedding model's \<^verbatim>\<open>encode\<close> and an invocation of a generative-model chain
  are the external calls of the program. A computation returns a value or raises, and
  leaves the list of the external calls it made, in order.
\<close>

datatype event =
    EncodeCall "pyval list"
  | OracleCall string

type_synonym 'a comp = "(exn + 'a) \<times> event list"

definition ret :: "'a \<Rightarrow> 'a comp" where
  "ret x = (Inr x, [])"

definition raise :: "exn \<Rightarrow> 'a comp" where
  "raise e = (Inl e, [])"

definition pure :: "exn + 'a \<Rightarrow> 'a comp" where
  "pure r = (r, [])"

definition and_then :: "'a comp \<Rightarrow> ('a \<Rightarrow> 'b comp) \<Rightarrow> 'b comp" where
  "and_then m f =
     (case m of
        (Inl e, t) \<Rightarrow> (Inl e, t)
      | (Inr x, t) \<Rightarrow> (case f x of (r, t') \<Rightarrow> (r, t @ t')))"

section \<open>models/matcher.py: the embedding similarity engine\<close>

text \<open>
  The sentence-transformer model and the tensor operations are library code. A loaded
  model is its \<^verbatim>\<open>encode\<close> method, from a list of sentences to the rows of a tensor;
  \<^verbatim>\<open>mean(dim=0)\<close> and \<^verbatim>\<open>util.cos_sim(..).item()\<close> are parameters as well. Each may raise.
\<close>

type_synonym 'v sentence_transformer = "pyval list \<Rightarrow> exn + 'v list"

record 'v tensor_ops =
  mean_dim0 :: "'v list \<Rightarrow> exn + 'v"
  cos_sim :: "'v \<Rightarrow> 'v \<Rightarrow> exn + real"

definition encode :: "'v sentence_transformer \<Rightarrow> pyval list \<Rightarrow> 'v list comp" where
  "encode model sentences = (model sentences, [EncodeCall sentences])"

text \<open>Lines 60 to 64 of \<^verbatim>\<open>score\<close>: from the two embeddings to the percentage.\<close>

definition score_value :: "real \<Rightarrow> real" where
  "score_value similarity = max 0 (min 100 (py_round_ndigits (similarity * 100) 2))"

definition similarity_score :: "'v tensor_ops \<Rightarrow> 'v \<Rightarrow> 'v \<Rightarrow> real comp" where
  "similarity_score ops emb1 emb2 =
     and_then (pure (cos_sim ops emb1 emb2)) (\<lambda>similarity. ret (score_value similarity))"

text \<open>The body of the \<^verbatim>\<open>try\<close> of \<^verbatim>\<open>SemanticModel.score\<close>.\<close>

definition score_try ::
  "'v tensor_ops \<Rightarrow> 'v sentence_transformer option \<Rightarrow> pyval \<Rightarrow> pyval \<Rightarrow> real comp" where
  "score_try ops model_opt job_text resume_text =
     (case model_opt of
        None \<Rightarrow> raise (RuntimeError ''Semantic Model is not loaded.'')
      | Some model \<Rightarrow>
          if isinstance_str job_text \<and> isinstance_str resume_text then
            and_then (encode model [job_text, resume_text]) (\<lambda>embeddings.
            and_then (pure (getitem embeddings 0)) (\<lambda>emb1.
            and_then (pure (getitem embeddings 1)) (\<lambda>emb2.
            similarity_score ops emb1 emb2)))
          else if isinstance_list job_text \<and> isinstance_list resume_text then
            if \<not> truthy job_text \<or> \<not> truthy resume_text then ret 0
            else
              and_then (encode model (case job_text of PList xs \<Rightarrow> xs | _ \<Rightarrow> [])) (\<lambda>t1.
              and_then (pure (mean_dim0 ops t1)) (\<lambda>emb1.
              and_then (encode model (case resume_text of PList ys \<Rightarrow> ys | _ \<Rightarrow> [])) (\<lambda>t2.
              and_then (pure (mean_dim0 ops t2)) (\<lambda>emb2.
              similarity_score ops emb1 emb2))))
          else ret 0)"

text \<open>
  \<^verbatim>\<open>SemanticModel.score\<close>: both handlers, the one for \<^verbatim>\<open>RuntimeError\<close> and the one for
  every other \<^verbatim>\<open>Exception\<close>, return 0.0.
\<close>

definition score ::
  "'v tensor_ops \<Rightarrow> 'v sentence_transformer option \<Rightarrow> pyval \<Rightarrow> pyval \<Rightarrow> real \<times> event list" where
  "score ops model_opt job_text resume_text =
     (case score_try ops model_opt job_text resume_text of
        (Inl (RuntimeError e), t) \<Rightarrow> (0, t)
      | (Inl e, t) \<Rightarrow> (0, t)
      | (Inr v, t) \<Rightarrow> (v, t))"

section \<open>models/extractor.py: text extraction and the skill extractor\<close>

text \<open>
  \<^verbatim>\<open>str.strip()\<close> removes leading and trailing whitespace; the whitespace characters below
  code point 256 are listed. \<^verbatim>\<open>sep.join(xs)\<close> puts the separator between the elements.
\<close>

definition py_isspace :: "char \<Rightarrow> bool" where
  "py_isspace c =
     (c \<in> set [CHR 0x09, CHR 0x0A, CHR 0x0B, CHR 0x0C, CHR 0x0D, CHR 0x1C, CHR 0x1D,
                CHR 0x1E, CHR 0x1F, CHR 0x20, CHR 0x85, CHR 0xA0])"

definition strip :: "string \<Rightarrow> string" where
  "strip s = rev (dropWhile py_isspace (rev (dropWhile py_isspace s)))"

fun join :: "string \<Rightarrow> string list \<Rightarrow> string" where
  "join sep [] = []"
| "join sep [x] = x"
| "join sep (x # y # ys) = x @ sep @ join sep (y # ys)"

text \<open>
  The document libraries are parameters: \<^verbatim>\<open>pdfplumber\<close> gives, for a file, the result of
  \<^verbatim>\<open>extract_text()\<close> on each page (\<^verbatim>\<open>None\<close> for a page without text), \<^verbatim>\<open>docx\<close> gives the
  text of each paragraph. Either may raise.
\<close>

record doc_libs =
  pdf_page_texts :: "string \<Rightarrow> exn + string option list"
  docx_paragraph_texts :: "string \<Rightarrow> exn + string list"

definition extract_text_from_pdf :: "doc_libs \<Rightarrow> string \<Rightarrow> string" where
  "extract_text_from_pdf libs file =
     (case pdf_page_texts libs file of
        Inl e \<Rightarrow> []
      | Inr pages \<Rightarrow>
          strip (concat (map (\<lambda>page_text.
            case page_text of
              None \<Rightarrow> []
            | Some t \<Rightarrow> if t \<noteq> [] then t @ [CHR 0x0A] else []) pages)))"

definition extract_text_from_docx :: "doc_libs \<Rightarrow> string \<Rightarrow> string" where
  "extract_text_from_docx libs file =
     (case docx_paragraph_texts libs file of
        Inl e \<Rightarrow> []
      | Inr paras \<Rightarrow> join [CHR 0x0A] (map strip (filter (\<lambda>para. strip para \<noteq> []) paras)))"

text \<open>
  The classes \<^verbatim>\<open>SkillCategory(category, skills)\<close> and \<^verbatim>\<open>CandidateSkills(skill_sets)\<close>, and
  \<^verbatim>\<open>model_dump()\<close> on them: a dictionary of the fields, nested models dumped in turn.
\<close>

datatype SkillCategory = SkillCategory (category: string) (skills: "string list")

datatype CandidateSkills = CandidateSkills (skill_sets: "SkillCategory list")

definition model_dump_SkillCategory :: "SkillCategory \<Rightarrow> pyval" where
  "model_dump_SkillCategory c =
     PDict [(''category'', PStr (category c)), (''skills'', PList (map PStr (skills c)))]"

definition model_dump_CandidateSkills :: "CandidateSkills \<Rightarrow> pydict" where
  "model_dump_CandidateSkills r =
     [(''skill_sets'', PList (map model_dump_SkillCategory (skill_sets r)))]"

text \<open>
  The response classes of models/rewriter.py, fields in the order of their declaration:
  \<^verbatim>\<open>RequiredSkillsResponse(technical_skills, soft_skills)\<close>,
  \<^verbatim>\<open>ContentScoreResponse(score, reasoning, missing_keywords, improvement_tips)\<close>,
  \<^verbatim>\<open>StructureScoreResponse(score, reasoning)\<close> and
  \<^verbatim>\<open>ProfessionalSummaryResponse(key_points)\<close>.
\<close>

datatype RequiredSkillsResponse = RequiredSkillsResponse "string list" "string list"

datatype ContentScoreResponse = ContentScoreResponse int string "string list" "string list"

datatype StructureScoreResponse = StructureScoreResponse int string

datatype ProfessionalSummaryResponse = ProfessionalSummaryResponse "string list"

fun model_dump_RequiredSkillsResponse :: "RequiredSkillsResponse \<Rightarrow> pydict" where
  "model_dump_RequiredSkillsResponse (RequiredSkillsResponse technical soft) =
     [(''technical_skills'', PList (map PStr technical)), (''soft_skills'', PList (map PStr soft))]"

fun model_dump_ContentScoreResponse :: "ContentScoreResponse \<Rightarrow> pydict" where
  "model_dump_ContentScoreResponse (ContentScoreResponse sc reasoning missing tips) =
     [(''score'', PInt sc), (''reasoning'', PStr reasoning),
      (''missing_keywords'', PList (map PStr missing)),
      (''improvement_tips'', PList (map PStr tips))]"

fun model_dump_StructureScoreResponse :: "StructureScoreResponse \<Rightarrow> pydict" where
  "model_dump_StructureScoreResponse (StructureScoreResponse sc reasoning) =
     [(''score'', PInt sc), (''reasoning'', PStr reasoning)]"

fun model_dump_ProfessionalSummaryResponse :: "ProfessionalSummaryResponse \<Rightarrow> pydict" where
  "model_dump_ProfessionalSummaryResponse (ProfessionalSummaryResponse points) =
     [(''key_points'', PList (map PStr points))]"

text \<open>
  The generative model is an oracle. Each field is what the \<^verbatim>\<open>try\<close> block of one client does
  up to the parsed result: building the chain and invoking it on the client's arguments.
  It gives an instance of the client's response class or raises.
\<close>

record oracles =
  invoke_candidate_skills :: "string \<Rightarrow> exn + CandidateSkills"
  invoke_required_skills :: "string \<Rightarrow> exn + RequiredSkillsResponse"
  invoke_content_score :: "string \<Rightarrow> string \<Rightarrow> exn + ContentScoreResponse"
  invoke_structure_score :: "string \<Rightarrow> exn + StructureScoreResponse"
  invoke_professional_summary :: "pyval \<Rightarrow> string \<Rightarrow> string \<Rightarrow> exn + ProfessionalSummaryResponse"

definition extract_all_skills :: "oracles \<Rightarrow> string \<Rightarrow> pydict \<times> event list" where
  "extract_all_skills orc text =
     (if text = [] \<or> length text < 50 then
        ([(''skill_sets'', PList []),
          (''error'', PStr ''Resume text is too short for skill extraction.'')], [])
      else
        (case invoke_candidate_skills orc text of
           Inr result \<Rightarrow> model_dump_CandidateSkills result
         | Inl e \<Rightarrow>
             [(''skill_sets'', PList []),
              (''error'', PStr (''AI extraction failed: '' @ exn_str e))],
         [OracleCall ''extract_all_skills'']))"

section \<open>models/rewriter.py: the oracle clients\<close>

definition get_required_skills :: "oracles \<Rightarrow> string \<Rightarrow> pydict \<times> event list" where
  "get_required_skills orc job_description =
     (case invoke_required_skills orc job_description of
        Inr result \<Rightarrow> model_dump_RequiredSkillsResponse result
      | Inl e \<Rightarrow>
          [(''technical_skills'', PList []), (''soft_skills'', PList []),
           (''error'', PStr (''Error generating skills: '' @ exn_str e))],
      [OracleCall ''get_required_skills''])"

definition get_content_score :: "oracles \<Rightarrow> string \<Rightarrow> string \<Rightarrow> pydict \<times> event list" where
  "get_content_score orc text job_title =
     (case invoke_content_score orc text job_title of
        Inr result \<Rightarrow> model_dump_ContentScoreResponse result
      | Inl e \<Rightarrow>
          [(''score'', PInt 0),
           (''reasoning'', PStr (''Failed to analyze resume: '' @ exn_str e)),
           (''missing_keywords'', PList []), (''improvement_tips'', PList [])],
      [OracleCall ''get_content_score''])"

definition get_structure_score :: "oracles \<Rightarrow> string \<Rightarrow> pydict \<times> event list" where
  "get_structure_score orc text =
     (case invoke_structure_score orc text of
        Inr result \<Rightarrow> model_dump_StructureScoreResponse result
      | Inl e \<Rightarrow>
          [(''score'', PInt 0),
           (''reasoning'', PStr (''Error during structure scoring: '' @ exn_str e))],
      [OracleCall ''get_structure_score''])"

definition get_professional_summary_suggestions ::
  "oracles \<Rightarrow> pyval \<Rightarrow> string \<Rightarrow> string \<Rightarrow> pydict \<times> event list" where
  "get_professional_summary_suggestions orc sc resume_text job_title =
     (case invoke_professional_summary orc sc resume_text job_title of
        Inr result \<Rightarrow> model_dump_ProfessionalSummaryResponse result
      | Inl e \<Rightarrow>
          [(''options'', PList []),
           (''error'', PStr (''Error generating summary: '' @ exn_str e))],
      [OracleCall ''get_professional_summary_suggestions''])"

section \<open>The singleton of models/matcher.py\<close>

text \<open>
  The state of the class \<^verbatim>\<open>SemanticModel\<close> is its two class attributes: \<^verbatim>\<open>_instance\<close> (the
  instance is its \<^verbatim>\<open>model_name\<close>) and \<^verbatim>\<open>_model\<close>. The environment variable \<^verbatim>\<open>MODEL_NAME\<close>,
  the constructor \<^verbatim>\<open>SentenceTransformer\<close>, the tensor operations and the oracles are the
  rest of the world a request runs in.
\<close>

record 'v world =
  SemanticModel_instance :: "string option"
  SemanticModel_model :: "'v sentence_transformer option"
  MODEL_NAME :: "string option"
  SentenceTransformer :: "string \<Rightarrow> exn + 'v sentence_transformer"
  tensor_lib :: "'v tensor_ops"
  llm :: oracles

definition SemanticModel_init :: "'v world \<Rightarrow> string \<Rightarrow> exn + 'v world" where
  "SemanticModel_init w model_name =
     (if SemanticModel_instance w \<noteq> None then
        Inl (Exception ''This class is a Singleton! Use SemanticModel.get_instance() instead.'')
      else
        (case SentenceTransformer w model_name of
           Inl e \<Rightarrow>
             Inl (RuntimeError
               ''Could not load Sentence Transformer model. Check model name and internet connection.'')
         | Inr m \<Rightarrow> Inr (w\<lparr>SemanticModel_model := Some m\<rparr>)))"

definition get_instance :: "'v world \<Rightarrow> exn + 'v world" where
  "get_instance w =
     (if SemanticModel_instance w = None then
        (case MODEL_NAME w of
           None \<Rightarrow>
             Inl (EnvironmentError
               ''MODEL_NAME environment variable is not set. Cannot initialize the scoring model.'')
         | Some model_name \<Rightarrow>
             if model_name = [] then
               Inl (EnvironmentError
                 ''MODEL_NAME environment variable is not set. Cannot initialize the scoring model.'')
             else
               (case SemanticModel_init w model_name of
                  Inl e \<Rightarrow> Inl e
                | Inr w' \<Rightarrow> Inr (w'\<lparr>SemanticModel_instance := Some model_name\<rparr>)))
      else Inr w)"

section \<open>app.py: the upload step and the analysis pipeline\<close>

text \<open>An uploaded file: its name and its bytes (the attribute \<^verbatim>\<open>file\<close>).\<close>

record upload =
  filename :: string
  file_data :: string

text \<open>\<^verbatim>\<open>s.endswith(t)\<close>.\<close>

definition endswith :: "string \<Rightarrow> string \<Rightarrow> bool" where
  "endswith s t = suffix t s"

text \<open>
  \<^verbatim>\<open>process_uploaded_file\<close>. Both extractors catch every exception themselves, so the
  handler that turns any other exception into status 500 has nothing to catch.
\<close>

definition process_uploaded_file :: "doc_libs \<Rightarrow> upload \<Rightarrow> http_exception + string" where
  "process_uploaded_file libs up =
     (if \<not> (endswith (filename up) ''.pdf'' \<or> endswith (filename up) ''.docx'') then
        Inl (HTTPException 400 ''Unsupported File Format. Please upload .docx or .pdf'')
      else
        (let text = (if endswith (filename up) ''.pdf''
                     then extract_text_from_pdf libs (file_data up)
                     else extract_text_from_docx libs (file_data up))
         in if text = [] \<or> length (strip text) = 0 then
              Inl (HTTPException 400 ''Could not extract text from file or file is empty.'')
            else Inr text))"

text \<open>
  Iterating over a value: a list gives its elements, a string its characters, a dictionary
  its keys; nothing else is iterable.
\<close>

fun py_iter :: "pyval \<Rightarrow> exn + pyval list" where
  "py_iter (PList xs) = Inr xs"
| "py_iter (PStr s) = Inr (map (\<lambda>c. PStr [c]) s)"
| "py_iter (PDict d) = Inr (map (\<lambda>kv. PStr (fst kv)) d)"
| "py_iter v = Inl (TypeError ''object is not iterable'')"

text \<open>
  The comprehension of lines 106 and 107, for one tag:
  \<^verbatim>\<open>[index.get('skills',[]) for index in ... if index.get('category') == tag]\<close>.
\<close>

fun category_skills :: "string \<Rightarrow> pyval list \<Rightarrow> exn + pyval list" where
  "category_skills tag [] = Inr []"
| "category_skills tag (index # rest) =
     (case py_get index ''category'' PNone of
        Inl e \<Rightarrow> Inl e
      | Inr c \<Rightarrow>
          if c = PStr tag then
            (case py_get index ''skills'' (PList []) of
               Inl e \<Rightarrow> Inl e
             | Inr s \<Rightarrow>
                 (case category_skills tag rest of
                    Inl e \<Rightarrow> Inl e
                  | Inr ss \<Rightarrow> Inr (s # ss)))
          else category_skills tag rest)"

text \<open>Lines 109 and 110: \<^verbatim>\<open>xs[0] if xs and xs[0] else []\<close>.\<close>

definition first_or_empty :: "pyval list \<Rightarrow> pyval" where
  "first_or_empty xs =
     (case xs of
        [] \<Rightarrow> PList []
      | x # rest \<Rightarrow> if truthy x then x else PList [])"

text \<open>
  A value as an operand of a multiplication with a float: an \<^verbatim>\<open>int\<close> is converted to the
  nearest double, and the conversion raises \<^verbatim>\<open>OverflowError\<close> when that is beyond the
  doubles.
\<close>

fun py_float :: "pyval \<Rightarrow> exn + real" where
  "py_float (PInt n) =
     (if \<bar>fl (of_int n)\<bar> < 2 ^ 1024 then Inr (fl (of_int n))
      else Inl (OverflowError ''int too large to convert to float''))"
| "py_float (PFloat x) = Inr x"
| "py_float (PBool b) = Inr (if b then 1 else 0)"
| "py_float v = Inl (TypeError ''unsupported operand type(s) for *'')"

definition lift :: "'a \<times> event list \<Rightarrow> 'a comp" where
  "lift m = (Inr (fst m), snd m)"

text \<open>
  The local variables of \<^verbatim>\<open>analyze_resume\<close> after line 127, and the part of the \<^verbatim>\<open>try\<close> block
  that computes them (lines 98 to 127). Every client returns a dictionary, so the test
  \<^verbatim>\<open>isinstance(content_analysis, dict)\<close> of lines 123 and 124 is true and the score is
  \<^verbatim>\<open>get('score', 0)\<close>.

  The arithmetic of lines 116 and 127 is the arithmetic of doubles, in the order Python
  evaluates it. The model of \<^verbatim>\<open>score\<close> returns the decimal number that \<^verbatim>\<open>round(.., 2)\<close> stands
  for; the float that \<^verbatim>\<open>score\<close> returns is the double nearest to it, which is what the three
  score variables hold. With scores between 0 and 100 and the two assessor scores below
  \<open>2 ^ 1024\<close>, no product and no sum of line 127 reaches \<open>2 ^ 1024\<close>.
\<close>

record locals =
  tech_input :: pyval
  soft_input :: pyval
  tech_score :: real
  soft_score :: real
  skill_match_score :: real
  ats_match_score :: real
  content_score :: pyval
  structure_score :: pyval
  overall_score :: int

definition analyze_resume_scores ::
  "'v world \<Rightarrow> string \<Rightarrow> string \<Rightarrow> string \<Rightarrow> locals comp" where
  "analyze_resume_scores w job_description job_title resume_text =
     and_then (pure (get_instance w)) (\<lambda>w'.
     and_then (lift (extract_all_skills (llm w') resume_text)) (\<lambda>res_skill.
     and_then (lift (get_required_skills (llm w') job_description)) (\<lambda>req_skill.
     let req_tech_skill = dict_get req_skill ''technical_skills'' (PList []);
         req_soft_skill = dict_get req_skill ''soft_skills'' (PList [])
     in
     and_then (pure (py_iter (dict_get res_skill ''skill_sets'' (PList [])))) (\<lambda>sets.
     and_then (pure (category_skills ''TECHNICAL'' sets)) (\<lambda>res_tech_skill.
     and_then (pure (category_skills ''SOFT'' sets)) (\<lambda>res_soft_skill.
     let tech_in = first_or_empty res_tech_skill;
         soft_in = first_or_empty res_soft_skill
     in
     and_then (lift (score (tensor_lib w') (SemanticModel_model w') req_tech_skill tech_in))
       (\<lambda>tech_decimal.
     and_then (lift (score (tensor_lib w') (SemanticModel_model w') req_soft_skill soft_in))
       (\<lambda>soft_decimal.
     let tech = fl tech_decimal;
         soft = fl soft_decimal;
         skill_match = fadd (fmul (fl 0.75) tech) (fmul (fl 0.25) soft)
     in
     and_then (lift (score (tensor_lib w') (SemanticModel_model w')
                       (PStr job_description) (PStr resume_text))) (\<lambda>ats_decimal.
     let ats_match = fl ats_decimal in
     and_then (lift (get_content_score (llm w') resume_text job_title)) (\<lambda>content_analysis.
     and_then (lift (get_structure_score (llm w') resume_text)) (\<lambda>structure_analysis.
     let content = dict_get content_analysis ''score'' (PInt 0);
         structure = dict_get structure_analysis ''score'' (PInt 0)
     in
     and_then (pure (py_float content)) (\<lambda>c.
     and_then (pure (py_float structure)) (\<lambda>s.
     ret \<lparr> tech_input = tech_in, soft_input = soft_in, tech_score = tech, soft_score = soft,
           skill_match_score = skill_match, ats_match_score = ats_match,
           content_score = content, structure_score = structure,
           overall_score =
             py_round (fadd (fadd (fadd (fmul ats_match (fl 0.5)) (fmul skill_match (fl 0.3)))
                                  (fmul c (fl 0.1)))
                            (fmul s (fl 0.1))) \<rparr>
     )))))))))))))"

text \<open>The rest of the \<^verbatim>\<open>try\<close> block: the summary oracle and the JSON response.\<close>

record json_response =
  status_code :: nat
  content :: pydict

definition analyze_resume_try ::
  "'v world \<Rightarrow> string \<Rightarrow> string \<Rightarrow> string \<Rightarrow> json_response comp" where
  "analyze_resume_try w job_description job_title resume_text =
     and_then (analyze_resume_scores w job_description job_title resume_text) (\<lambda>l.
     and_then (lift (get_professional_summary_suggestions (llm w)
                       (PInt (overall_score l)) resume_text job_title)) (\<lambda>improvements.
     ret \<lparr> status_code = 200,
           content =
             [(''success'', PBool True),
              (''overall_score'', PInt (overall_score l)),
              (''scores'', PDict
                 [(''ats_compatibility_score'', PInt (py_round (ats_match_score l))),
                  (''skill_match_score'', PInt (py_round (skill_match_score l))),
                  (''content_quality_score'', content_score l),
                  (''structure_score'', structure_score l)]),
              (''improvements_suggestion'', PDict improvements)] \<rparr>))"

text \<open>\<^verbatim>\<open>analyze_resume\<close>: any exception of the \<^verbatim>\<open>try\<close> block becomes status 500.\<close>

definition analyze_resume ::
  "'v world \<Rightarrow> string \<Rightarrow> string \<Rightarrow> string \<Rightarrow> (http_exception + json_response) \<times> event list" where
  "analyze_resume w job_description job_title resume_text =
     (case analyze_resume_try w job_description job_title resume_text of
        (Inl e, t) \<Rightarrow>
          (Inl (HTTPException 500 (''Internal server error during analysis: '' @ exn_str e)), t)
      | (Inr response, t) \<Rightarrow> (Inr response, t))"

text \<open>
  \<^verbatim>\<open>POST /analyze_resume\<close>: the framework resolves the dependency
  \<^verbatim>\<open>resume_text = Depends(process_uploaded_file)\<close> first and calls the endpoint only when it
  returned.
\<close>

definition post_analyze_resume ::
  "doc_libs \<Rightarrow> 'v world \<Rightarrow> string \<Rightarrow> string \<Rightarrow> upload \<Rightarrow>
   (http_exception + json_response) \<times> event list" where
  "post_analyze_resume libs w job_description job_title up =
     (case process_uploaded_file libs up of
        Inl h \<Rightarrow> (Inl h, [])
      | Inr resume_text \<Rightarrow> analyze_resume w job_description job_title resume_text)"

section \<open>What the specification says, as definitions\<close>

text \<open>
  The phrase list of a tag, in the specification's words: the skills of the first entry
  whose category is exactly the tag, the empty list when there is none.
\<close>

definition first_with_tag :: "string \<Rightarrow> SkillCategory list \<Rightarrow> string list" where
  "first_with_tag tag cats =
     (case find (\<lambda>c. category c = tag) cats of
        None \<Rightarrow> []
      | Some c \<Rightarrow> skills c)"

text \<open>
  The declared output schema of a client is the list of the fields of its response class
  with their types. A dictionary conforms to it when every declared field is present
  with a value of its type; a key the schema does not declare is ignored, as the
  validation of a response class ignores it.
\<close>

datatype base_type = TInt | TStr | TStrList

datatype field_type = Base base_type | ModelList "(string \<times> base_type) list"

fun has_base_type :: "base_type \<Rightarrow> pyval \<Rightarrow> bool" where
  "has_base_type TInt (PInt n) = True"
| "has_base_type TStr (PStr s) = True"
| "has_base_type TStrList (PList xs) = list_all isinstance_str xs"
| "has_base_type ty v = False"

definition conforms_base :: "(string \<times> base_type) list \<Rightarrow> pydict \<Rightarrow> bool" where
  "conforms_base schema d =
     list_all (\<lambda>field.
       case map_of d (fst field) of
         None \<Rightarrow> False
       | Some v \<Rightarrow> has_base_type (snd field) v) schema"

fun has_field_type :: "field_type \<Rightarrow> pyval \<Rightarrow> bool" where
  "has_field_type (Base ty) v = has_base_type ty v"
| "has_field_type (ModelList schema) (PList xs) =
     list_all (\<lambda>x. case x of PDict d \<Rightarrow> conforms_base schema d | _ \<Rightarrow> False) xs"
| "has_field_type (ModelList schema) v = False"

definition conforms :: "(string \<times> field_type) list \<Rightarrow> pydict \<Rightarrow> bool" where
  "conforms schema d =
     list_all (\<lambda>field.
       case map_of d (fst field) of
         None \<Rightarrow> False
       | Some v \<Rightarrow> has_field_type (snd field) v) schema"

definition CandidateSkills_schema :: "(string \<times> field_type) list" where
  "CandidateSkills_schema =
     [(''skill_sets'', ModelList [(''category'', TStr), (''skills'', TStrList)])]"

definition RequiredSkillsResponse_schema :: "(string \<times> field_type) list" where
  "RequiredSkillsResponse_schema =
     [(''technical_skills'', Base TStrList), (''soft_skills'', Base TStrList)]"

definition ContentScoreResponse_schema :: "(string \<times> field_type) list" where
  "ContentScoreResponse_schema =
     [(''score'', Base TInt), (''reasoning'', Base TStr),
      (''missing_keywords'', Base TStrList), (''improvement_tips'', Base TStrList)]"

definition StructureScoreResponse_schema :: "(string \<times> field_type) list" where
  "StructureScoreResponse_schema = [(''score'', Base TInt), (''reasoning'', Base TStr)]"

definition ProfessionalSummaryResponse_schema :: "(string \<times> field_type) list" where
  "ProfessionalSummaryResponse_schema = [(''key_points'', Base TStrList)]"

section \<open>A small world to run the program in\<close>

text \<open>
  Embeddings in the plane: a sentence transformer that knows four phrases, the mean of
  the rows of a tensor, and the cosine of the angle between two vectors.
\<close>

definition demo_embed :: "pyval \<Rightarrow> real list" where
  "demo_embed v =
     (if v = PStr ''SQL'' then [3, 4]
      else if v = PStr ''Python'' then [5, 12]
      else if v = PStr ''communication'' then [4, 3]
      else if v = PStr ''teamwork'' then [- 4, - 3]
      else [1, 0])"

definition demo_model :: "real list sentence_transformer" where
  "demo_model sentences = Inr (map demo_embed sentences)"

definition demo_dot :: "real list \<Rightarrow> real list \<Rightarrow> real" where
  "demo_dot u v = sum_list (map2 (*) u v)"

definition demo_ops :: "real list tensor_ops" where
  "demo_ops =
     \<lparr> mean_dim0 = (\<lambda>rows.
         Inr [sum_list (map (\<lambda>r. r ! 0) rows) / real (length rows),
              sum_list (map (\<lambda>r. r ! 1) rows) / real (length rows)]),
       cos_sim = (\<lambda>u v. Inr (demo_dot u v / (sqrt (demo_dot u u) * sqrt (demo_dot v v)))) \<rparr>"

definition demo_cats :: "SkillCategory list" where
  "demo_cats =
     [SkillCategory ''technical'' [''Excel''],
      SkillCategory ''TECHNICAL'' [''Python'', ''SQL''],
      SkillCategory ''SOFT'' [],
      SkillCategory ''TECHNICAL'' [''COBOL''],
      SkillCategory ''SOFT'' [''teamwork'']]"

definition demo_llm :: oracles where
  "demo_llm =
     \<lparr> invoke_candidate_skills = (\<lambda>text. Inr (CandidateSkills demo_cats)),
       invoke_required_skills = (\<lambda>job_description.
         Inr (RequiredSkillsResponse [''SQL'', ''Python''] [''communication''])),
       invoke_content_score = (\<lambda>text job_title.
         Inr (ContentScoreResponse 80 ''clear'' [] [])),
       invoke_structure_score = (\<lambda>text. Inr (StructureScoreResponse 68 ''ordered'')),
       invoke_professional_summary = (\<lambda>sc text job_title.
         Inr (ProfessionalSummaryResponse [''quantify results''])) \<rparr>"

definition soft_llm :: oracles where
  "soft_llm =
     demo_llm \<lparr> invoke_candidate_skills := (\<lambda>text. Inr (CandidateSkills
       [SkillCategory ''SOFT'' [''SQL''], SkillCategory ''TECHNICAL'' [''Python'', ''SQL''],
        SkillCategory ''SOFT'' [''teamwork'']])) \<rparr>"

definition tie_llm :: oracles where
  "tie_llm =
     demo_llm \<lparr> invoke_content_score := (\<lambda>text job_title.
                   Inr (ContentScoreResponse 58 ''thin'' [''metrics''] [])),
                 invoke_structure_score := (\<lambda>text. Inr (StructureScoreResponse 7 ''unordered'')) \<rparr>"

definition failing_llm :: "exn \<Rightarrow> oracles" where
  "failing_llm e =
     \<lparr> invoke_candidate_skills = (\<lambda>text. Inl e),
       invoke_required_skills = (\<lambda>job_description. Inl e),
       invoke_content_score = (\<lambda>text job_title. Inl e),
       invoke_structure_score = (\<lambda>text. Inl e),
       invoke_professional_summary = (\<lambda>sc text job_title. Inl e) \<rparr>"

definition demo_world :: "real list world" where
  "demo_world =
     \<lparr> SemanticModel_instance = Some ''all-MiniLM-L6-v2'',
       SemanticModel_model = Some demo_model,
       MODEL_NAME = Some ''all-MiniLM-L6-v2'',
       SentenceTransformer = (\<lambda>model_name. Inr demo_model),
       tensor_lib = demo_ops,
       llm = demo_llm \<rparr>"


definition failing_model :: "real list sentence_transformer" where
  "failing_model sentences = Inl (Exception ''CUDA out of memory'')"

definition soft_world :: "real list world" where
  "soft_world = demo_world \<lparr> llm := soft_llm \<rparr>"

definition tie_world :: "real list world" where
  "tie_world = demo_world \<lparr> llm := tie_llm \<rparr>"

definition demo_resume :: string where
  "demo_resume = ''Python developer with 5 years experience in backend systems''"

definition demo_libs :: doc_libs where
  "demo_libs =
     \<lparr> pdf_page_texts = (\<lambda>f. Inr [Some demo_resume]),
       docx_paragraph_texts = (\<lambda>f. Inr [demo_resume]) \<rparr>"

section \<open>Rounding and the percentage\<close>


lemma py_round_ge_floor: "\<lfloor>x\<rfloor> \<le> py_round x"
  unfolding py_round_def Let_def by auto

lemma py_round_neg: "x < 0 \<Longrightarrow> py_round x \<le> 0"
  unfolding py_round_def Let_def by (auto; linarith)


lemma score_value_range: "0 \<le> score_value s \<and> score_value s \<le> 100"
  by (simp add: score_value_def)

lemma score_value_neg: "s < 0 \<Longrightarrow> score_value s = 0"
proof -
  assume "s < 0"
  then have "s * 100 * 10 ^ 2 < 0" by simp
  then have "py_round (s * 100 * 10 ^ 2) \<le> 0" by (rule py_round_neg)
  then have "py_round_ndigits (s * 100) 2 \<le> 0"
    unfolding py_round_ndigits_def by (simp add: divide_le_0_iff)
  then show ?thesis by (simp add: score_value_def)
qed


lemma score_of_try:
  "score ops M a b =
     (case fst (score_try ops M a b) of Inl e \<Rightarrow> 0 | Inr v \<Rightarrow> v, snd (score_try ops M a b))"
  unfolding score_def by (auto split: prod.splits sum.splits exn.splits)

lemma score_try_str:
  "model [PStr x, PStr y] = Inr (e1 # e2 # rest) \<Longrightarrow>
   score_try ops (Some model) (PStr x) (PStr y) =
     (case cos_sim ops e1 e2 of Inl e \<Rightarrow> Inl e | Inr s \<Rightarrow> Inr (score_value s),
      [EncodeCall [PStr x, PStr y]])"
  by (simp add: score_try_def and_then_def encode_def pure_def getitem_def similarity_score_def
      ret_def split: sum.splits)

lemma score_try_list:
  "xs \<noteq> [] \<Longrightarrow> ys \<noteq> [] \<Longrightarrow> model xs = Inr t1 \<Longrightarrow> mean_dim0 ops t1 = Inr e1 \<Longrightarrow>
   model ys = Inr t2 \<Longrightarrow> mean_dim0 ops t2 = Inr e2 \<Longrightarrow>
   score_try ops (Some model) (PList xs) (PList ys) =
     (case cos_sim ops e1 e2 of Inl e \<Rightarrow> Inl e | Inr s \<Rightarrow> Inr (score_value s),
      [EncodeCall xs, EncodeCall ys])"
  by (simp add: score_try_def and_then_def encode_def pure_def similarity_score_def
      ret_def split: sum.splits)

lemma score_try_range: "fst (score_try ops M a b) = Inr v \<Longrightarrow> 0 \<le> v \<and> v \<le> 100"
  unfolding score_try_def
  by (auto simp: and_then_def encode_def pure_def getitem_def similarity_score_def
      ret_def raise_def score_value_def split: sum.splits option.splits if_splits prod.splits)

lemma score_range: "0 \<le> fst (score ops M a b) \<and> fst (score ops M a b) \<le> 100"
  using score_try_range [of ops M a b]
  by (auto simp: score_of_try split: sum.splits)

lemma sqrt_169: "sqrt 169 = 13"
  by (simp add: real_sqrt_unique)

lemma sqrt_25: "sqrt 25 = 5"
  by (simp add: real_sqrt_unique)

lemma demo_cos_eval:
  "cos_sim demo_ops [5, 12] [1, 0] = Inr (5 / 13)"
  "cos_sim demo_ops [4, 8] [4, 8] = Inr 1"
  "cos_sim demo_ops [1, 0] [1, 0] = Inr 1"
  "cos_sim demo_ops [4, 3] [- 4, - 3] = Inr (- 1)"
  by (simp_all add: demo_ops_def demo_dot_def sqrt_169 sqrt_25)

lemma demo_mean_eval:
  "mean_dim0 demo_ops [[3, 4], [5, 12]] = Inr [4, 8]"
  "mean_dim0 demo_ops [[5, 12], [3, 4]] = Inr [4, 8]"
  "mean_dim0 demo_ops [[4, 3]] = Inr [4, 3]"
  "mean_dim0 demo_ops [[- 4, - 3]] = Inr [- 4, - 3]"
  by (simp_all add: demo_ops_def)

lemma score_value_eval:
  "score_value (5 / 13) = 38.46" "score_value 1 = 100" "score_value (- 1) = 0"
  by (simp_all add: score_value_def py_round_ndigits_def py_round_def Let_def)

text \<open>
  Claim C3. Whatever the model, the operations and the two arguments are, \<^verbatim>\<open>score\<close> returns a
  value between 0 and 100. When both arguments are strings, or both are non-empty lists,
  and the encoding, the mean and the cosine similarity \<open>s\<close> are computed, the result is
  \<^verbatim>\<open>max(0, min(100, round(s * 100, 2)))\<close>, and it is 0 when \<open>s\<close> is negative.
\<close>
theorem score_range_and_formula:
  "0 \<le> fst (score ops M a b) \<and> fst (score ops M a b) \<le> 100 \<and>
   (model [PStr x, PStr y] = Inr (e1 # e2 # rest) \<and> cos_sim ops e1 e2 = Inr s \<longrightarrow>
      fst (score ops (Some model) (PStr x) (PStr y))
        = max 0 (min 100 (py_round_ndigits (s * 100) 2)) \<and>
      (s < 0 \<longrightarrow> fst (score ops (Some model) (PStr x) (PStr y)) = 0)) \<and>
   (xs \<noteq> [] \<and> ys \<noteq> [] \<and> model xs = Inr t1 \<and> mean_dim0 ops t1 = Inr m1 \<and>
    model ys = Inr t2 \<and> mean_dim0 ops t2 = Inr m2 \<and> cos_sim ops m1 m2 = Inr s' \<longrightarrow>
      fst (score ops (Some model) (PList xs) (PList ys))
        = max 0 (min 100 (py_round_ndigits (s' * 100) 2)) \<and>
      (s' < 0 \<longrightarrow> fst (score ops (Some model) (PList xs) (PList ys)) = 0))"
proof (intro conjI impI)
  show "0 \<le> fst (score ops M a b)" "fst (score ops M a b) \<le> 100"
    using score_range [of ops M a b] by simp_all
next
  assume h: "model [PStr x, PStr y] = Inr (e1 # e2 # rest) \<and> cos_sim ops e1 e2 = Inr s"
  then have eq: "fst (score ops (Some model) (PStr x) (PStr y)) = score_value s"
    by (simp add: score_of_try score_try_str)
  show "fst (score ops (Some model) (PStr x) (PStr y))
        = max 0 (min 100 (py_round_ndigits (s * 100) 2))"
    using eq by (simp add: score_value_def)
  assume "s < 0"
  then show "fst (score ops (Some model) (PStr x) (PStr y)) = 0"
    using eq by (simp add: score_value_neg)
next
  assume h: "xs \<noteq> [] \<and> ys \<noteq> [] \<and> model xs = Inr t1 \<and> mean_dim0 ops t1 = Inr m1 \<and>
    model ys = Inr t2 \<and> mean_dim0 ops t2 = Inr m2 \<and> cos_sim ops m1 m2 = Inr s'"
  then have "score_try ops (Some model) (PList xs) (PList ys) =
     (case cos_sim ops m1 m2 of Inl e \<Rightarrow> Inl e | Inr s \<Rightarrow> Inr (score_value s),
      [EncodeCall xs, EncodeCall ys])"
    by (intro score_try_list) blast+
  with h have eq: "fst (score ops (Some model) (PList xs) (PList ys)) = score_value s'"
    by (simp add: score_of_try)
  show "fst (score ops (Some model) (PList xs) (PList ys))
        = max 0 (min 100 (py_round_ndigits (s' * 100) 2))"
    using eq by (simp add: score_value_def)
  assume "s' < 0"
  then show "fst (score ops (Some model) (PList xs) (PList ys)) = 0"
    using eq by (simp add: score_value_neg)
qed

theorem score_range_and_formula_witness:
  "demo_model [PStr ''Python'', PStr demo_resume] = Inr ([5, 12] # [1, 0] # []) \<and>
   cos_sim demo_ops [5, 12] [1, 0] = Inr (5 / 13) \<and>
   fst (score demo_ops (Some demo_model) (PStr ''Python'') (PStr demo_resume)) = 38.46 \<and>
   [PStr ''communication''] \<noteq> [] \<and> [PStr ''teamwork''] \<noteq> [] \<and>
   demo_model [PStr ''communication''] = Inr [[4, 3]] \<and>
   mean_dim0 demo_ops [[4, 3]] = Inr [4, 3] \<and>
   demo_model [PStr ''teamwork''] = Inr [[- 4, - 3]] \<and>
   mean_dim0 demo_ops [[- 4, - 3]] = Inr [- 4, - 3] \<and>
   cos_sim demo_ops [4, 3] [- 4, - 3] = Inr (- 1) \<and> (- 1 :: real) < 0 \<and>
   fst (score demo_ops (Some demo_model) (PList [PStr ''communication''])
          (PList [PStr ''teamwork''])) = 0"
proof -
  have e1: "demo_model [PStr ''Python'', PStr demo_resume] = Inr ([5, 12] # [1, 0] # [])"
    by (simp add: demo_model_def demo_embed_def demo_resume_def)
  have e2: "demo_model [PStr ''communication''] = Inr [[4, 3]]"
    by (simp add: demo_model_def demo_embed_def)
  have e3: "demo_model [PStr ''teamwork''] = Inr [[- 4, - 3]]"
    by (simp add: demo_model_def demo_embed_def)
  note th = score_range_and_formula [of demo_ops "Some demo_model" "PStr ''Python''"
      "PStr demo_resume" demo_model "''Python''" demo_resume "[5, 12]" "[1, 0]" "[]" "5 / 13"
      "[PStr ''communication'']" "[PStr ''teamwork'']" "[[4, 3]]" "[4, 3]" "[[- 4, - 3]]"
      "[- 4, - 3]" "- 1"]
  have v: "max 0 (min 100 (py_round_ndigits (5 / 13 * 100) 2)) = 38.46"
    using score_value_eval(1) by (simp add: score_value_def)
  show ?thesis
    using th e1 e2 e3 demo_cos_eval demo_mean_eval v by simp
qed


text \<open>
  Claim C4. When either argument of \<^verbatim>\<open>score\<close> is the empty list, the result is exactly 0 and
  the trace of external calls is empty: \<^verbatim>\<open>encode\<close> is not invoked. This holds for every other
  argument and whether or not a model is loaded.
\<close>
theorem score_empty_sequence:
  "score ops M (PList []) x = (0, []) \<and> score ops M x (PList []) = (0, [])"
proof
  show "score ops M (PList []) x = (0, [])"
    by (cases M; cases x) (simp_all add: score_of_try score_try_def raise_def ret_def)
  show "score ops M x (PList []) = (0, [])"
    by (cases M; cases x) (simp_all add: score_of_try score_try_def raise_def ret_def)
qed

lemma score_try_str_encode_fails:
  "model [PStr x, PStr y] = Inl e \<Longrightarrow>
   score_try ops (Some model) (PStr x) (PStr y) = (Inl e, [EncodeCall [PStr x, PStr y]])"
  by (simp add: score_try_def and_then_def encode_def)

lemma score_try_list_encode_fails:
  "xs \<noteq> [] \<Longrightarrow> ys \<noteq> [] \<Longrightarrow> model xs = Inl e \<Longrightarrow>
   score_try ops (Some model) (PList xs) (PList ys) = (Inl e, [EncodeCall xs])"
  by (simp add: score_try_def and_then_def encode_def)

text \<open>
  Claim C7. \<^verbatim>\<open>score\<close> returns 0 on every internal failure: when the model handle is missing,
  when the body of its \<^verbatim>\<open>try\<close> raises any exception, and in particular when \<^verbatim>\<open>encode\<close> raises
  (on two strings or on two non-empty lists) or the cosine similarity raises. The result
  of \<^verbatim>\<open>score\<close> is a number, never an exception.
\<close>
theorem score_failure_returns_zero:
  "score ops None a b = (0, []) \<and>
   (fst (score_try ops M a b) = Inl e \<longrightarrow> fst (score ops M a b) = 0) \<and>
   (model [PStr x, PStr y] = Inl e1 \<longrightarrow>
      fst (score ops (Some model) (PStr x) (PStr y)) = 0) \<and>
   (xs \<noteq> [] \<and> ys \<noteq> [] \<and> model xs = Inl e2 \<longrightarrow>
      fst (score ops (Some model) (PList xs) (PList ys)) = 0) \<and>
   (model [PStr x, PStr y] = Inr (v1 # v2 # rest) \<and> cos_sim ops v1 v2 = Inl e3 \<longrightarrow>
      fst (score ops (Some model) (PStr x) (PStr y)) = 0)"
proof (intro conjI impI)
  show "score ops None a b = (0, [])"
    by (simp add: score_of_try score_try_def raise_def)
  show "fst (score ops M a b) = 0" if "fst (score_try ops M a b) = Inl e"
    using that by (simp add: score_of_try)
  show "fst (score ops (Some model) (PStr x) (PStr y)) = 0" if "model [PStr x, PStr y] = Inl e1"
    using that by (simp add: score_of_try score_try_str_encode_fails)
  show "fst (score ops (Some model) (PList xs) (PList ys)) = 0"
    if "xs \<noteq> [] \<and> ys \<noteq> [] \<and> model xs = Inl e2"
    using that by (simp add: score_of_try score_try_list_encode_fails)
  show "fst (score ops (Some model) (PStr x) (PStr y)) = 0"
    if "model [PStr x, PStr y] = Inr (v1 # v2 # rest) \<and> cos_sim ops v1 v2 = Inl e3"
    using that by (simp add: score_of_try score_try_str)
qed

theorem score_failure_returns_zero_witness:
  "fst (score_try demo_ops (Some failing_model) (PStr ''a'') (PStr ''b''))
     = Inl (Exception ''CUDA out of memory'') \<and>
   fst (score demo_ops (Some failing_model) (PStr ''a'') (PStr ''b'')) = 0 \<and>
   failing_model [PStr ''a'', PStr ''b''] = Inl (Exception ''CUDA out of memory'') \<and>
   [PStr ''SQL''] \<noteq> [] \<and> [PStr ''Python''] \<noteq> [] \<and>
   failing_model [PStr ''SQL''] = Inl (Exception ''CUDA out of memory'') \<and>
   fst (score demo_ops (Some failing_model) (PList [PStr ''SQL'']) (PList [PStr ''Python''])) = 0"
proof -
  have f: "\<And>l. failing_model l = Inl (Exception ''CUDA out of memory'')"
    by (simp add: failing_model_def)
  have t: "fst (score_try demo_ops (Some failing_model) (PStr ''a'') (PStr ''b''))
     = Inl (Exception ''CUDA out of memory'')"
    by (simp add: score_try_str_encode_fails f)
  show ?thesis
    using score_failure_returns_zero [of demo_ops "PStr ''a''" "PStr ''b''"
        "Some failing_model" "Exception ''CUDA out of memory''" failing_model "''a''" "''b''"
        "Exception ''CUDA out of memory''" "[PStr ''SQL'']" "[PStr ''Python'']"
        "Exception ''CUDA out of memory''"] f t
    by simp
qed





section \<open>The arithmetic of doubles\<close>

lemma py_round_of_int: "py_round (of_int k) = k"
  by (simp add: py_round_def)

lemma py_round_ge_int:
  assumes "of_int n \<le> x"
  shows "n \<le> py_round x"
proof -
  from assms have "n \<le> \<lfloor>x\<rfloor>" by (simp only: le_floor_iff)
  with py_round_ge_floor [of x] show ?thesis by linarith
qed

lemma py_round_le_int:
  assumes "x \<le> of_int n"
  shows "py_round x \<le> n"
proof (cases "x = of_int n")
  case True
  then show ?thesis by (simp add: py_round_of_int)
next
  case False
  with assms have "x < of_int n" by simp
  then have "\<lfloor>x\<rfloor> < n" by (simp only: floor_less_iff)
  moreover have "py_round x \<le> \<lfloor>x\<rfloor> + 1"
    unfolding py_round_def Let_def by auto
  ultimately show ?thesis by linarith
qed

lemma floorlog_two_bounds:
  assumes "0 < m"
  shows "0 < floorlog 2 m"
    and "(2::real) ^ (floorlog 2 m - 1) \<le> real m"
    and "real m + 1 \<le> 2 ^ floorlog 2 m"
proof -
  show "0 < floorlog 2 m"
    using assms by (simp add: floorlog_def)
  from floorlog_bounds [of m 2] assms
  have b: "2 ^ (floorlog 2 m - 1) \<le> m" "m < 2 ^ floorlog 2 m"
    by simp_all
  from b(1) have "real (2 ^ (floorlog 2 m - 1)) \<le> real m"
    by (simp only: of_nat_le_iff)
  then show "(2::real) ^ (floorlog 2 m - 1) \<le> real m"
    by simp
  from b(2) have "Suc m \<le> 2 ^ floorlog 2 m"
    by simp
  then have "real (Suc m) \<le> real (2 ^ floorlog 2 m)"
    by (simp only: of_nat_le_iff)
  then show "real m + 1 \<le> 2 ^ floorlog 2 m"
    by simp
qed

lemma binade_bracket:
  assumes "x \<noteq> 0"
  shows "2 powi binade x \<le> \<bar>x\<bar> \<and> \<bar>x\<bar> < 2 powi (binade x + 1)"
proof (cases "1 \<le> \<bar>x\<bar>")
  case True
  define m where "m = nat \<lfloor>\<bar>x\<bar>\<rfloor>"
  define k where "k = floorlog 2 m"
  have "1 \<le> \<lfloor>\<bar>x\<bar>\<rfloor>" using True by linarith
  then have m0: "0 < m" unfolding m_def by simp
  have rm: "real m = of_int \<lfloor>\<bar>x\<bar>\<rfloor>" unfolding m_def by simp
  have m1: "real m \<le> \<bar>x\<bar>" unfolding rm by linarith
  have m2: "\<bar>x\<bar> < real m + 1" unfolding rm by linarith
  note b = floorlog_two_bounds [OF m0, folded k_def]
  have "binade x = int k - 1"
    using True by (simp add: binade_def k_def m_def)
  then have e: "binade x = int (k - 1)" "binade x + 1 = int k"
    using b(1) by simp_all
  have lo: "2 powi binade x \<le> \<bar>x\<bar>"
    unfolding e(1) power_int_of_nat using b(2) m1 by linarith
  have hi: "\<bar>x\<bar> < 2 powi (binade x + 1)"
    unfolding e(2) power_int_of_nat using b(3) m2 by linarith
  from lo hi show ?thesis ..
next
  case False
  define y where "y = 1 / \<bar>x\<bar>"
  define m where "m = nat (\<lceil>y\<rceil> - 1)"
  define k where "k = floorlog 2 m"
  have x: "0 < \<bar>x\<bar>" "\<bar>x\<bar> < 1"
    using assms False by auto
  then have y: "1 < y"
    by (simp add: y_def)
  then have c: "2 \<le> \<lceil>y\<rceil>"
    by linarith
  then have m0: "0 < m" unfolding m_def by simp
  have rm: "real m = of_int \<lceil>y\<rceil> - 1" unfolding m_def using c by simp
  have m1: "real m < y" unfolding rm by linarith
  have m2: "y \<le> real m + 1" unfolding rm by linarith
  note b = floorlog_two_bounds [OF m0, folded k_def]
  have e: "binade x = - int k"
    using False by (simp add: binade_def k_def m_def y_def)
  have xy: "\<bar>x\<bar> = 1 / y"
    unfolding y_def by simp
  have y0: "0 < y" using y by simp
  have "y \<le> 2 ^ k"
    using b(3) m2 by linarith
  then have "1 / 2 ^ k \<le> 1 / y"
    using y0 by (simp add: frac_le)
  then have lo: "2 powi binade x \<le> \<bar>x\<bar>"
    unfolding e xy by (simp add: power_int_minus divide_inverse)
  have k1: "(2::real) ^ (k - 1) < y"
    using b(2) m1 by linarith
  have "1 / y < 1 / 2 ^ (k - 1)"
    using k1 by (simp add: frac_less2)
  moreover have "binade x + 1 = - int (k - 1)"
    using e b(1) by simp
  ultimately have hi: "\<bar>x\<bar> < 2 powi (binade x + 1)"
    unfolding xy by (simp add: power_int_minus divide_inverse)
  from lo hi show ?thesis ..
qed

lemma binade_unique:
  assumes "2 powi e \<le> \<bar>x\<bar>" and "\<bar>x\<bar> < 2 powi (e + 1)"
  shows "binade x = e"
proof -
  have "(0::real) < 2 powi e" by simp
  with assms(1) have "0 < \<bar>x\<bar>" by linarith
  then have "x \<noteq> 0" by simp
  from binade_bracket [OF this]
  have b: "2 powi binade x \<le> \<bar>x\<bar>" "\<bar>x\<bar> < 2 powi (binade x + 1)"
    by simp_all
  have "\<not> e < binade x"
  proof
    assume "e < binade x"
    then have "(2::real) powi (e + 1) \<le> 2 powi binade x"
      by (intro power_int_increasing) simp_all
    with b(1) assms(2) show False by linarith
  qed
  moreover have "\<not> binade x < e"
  proof
    assume "binade x < e"
    then have "(2::real) powi (binade x + 1) \<le> 2 powi e"
      by (intro power_int_increasing) simp_all
    with b(2) assms(1) show False by linarith
  qed
  ultimately show ?thesis by linarith
qed


lemma fl_zero: "fl 0 = 0"
  by (simp add: fl_def)

lemma fl_on_grid:
  assumes "y \<noteq> 0" and "y = of_int j * 2 powi max (binade y - 52) (- 1074)"
  shows "fl y = y"
proof -
  have p: "(2::real) powi max (binade y - 52) (- 1074) \<noteq> 0"
    by simp
  have "y / 2 powi max (binade y - 52) (- 1074) = of_int j"
    using p by (subst assms(2)) simp
  then have "fl y = of_int j * 2 powi max (binade y - 52) (- 1074)"
    using assms(1) by (simp add: fl_def Let_def py_round_of_int)
  with assms(2) show ?thesis by simp
qed

lemma fl_representable:
  assumes q: "- 1074 \<le> q" and k: "\<bar>k\<bar> \<le> 2 ^ 53"
  shows "fl (of_int k * 2 powi q) = of_int k * 2 powi q"
proof (cases "k = 0")
  case True
  then show ?thesis by (simp add: fl_zero)
next
  case False
  define y :: real where "y = of_int k * 2 powi q"
  define q' where "q' = max (binade y - 52) (- 1074)"
  have y0: "y \<noteq> 0"
    using False by (simp add: y_def)
  have ay: "\<bar>y\<bar> = of_int \<bar>k\<bar> * 2 powi q"
    by (simp add: y_def abs_mult)
  from binade_bracket [OF y0]
  have b: "2 powi binade y \<le> \<bar>y\<bar>"
    by simp
  have "real_of_int \<bar>k\<bar> \<le> 2 ^ 53"
    using k by (metis of_int_le_iff of_int_numeral of_int_power)
  then have "\<bar>y\<bar> \<le> 2 ^ 53 * 2 powi q"
    unfolding ay by (intro mult_right_mono) simp_all
  also have "\<dots> = 2 powi (53 + q)"
    by (simp add: power_int_add)
  finally have up: "\<bar>y\<bar> \<le> 2 powi (53 + q)" .
  have e: "binade y \<le> 53 + q"
  proof (rule ccontr)
    assume "\<not> binade y \<le> 53 + q"
    then have "(2::real) powi (53 + q) < 2 powi binade y"
      by (intro power_int_strict_increasing) simp_all
    with b up show False by linarith
  qed
  show ?thesis
  proof (cases "q' \<le> q")
    case True
    define j where "j = k * 2 ^ nat (q - q')"
    have "(2::real) powi q = 2 powi (q - q') * 2 powi q'"
      by (simp flip: power_int_add)
    also have "(2::real) powi (q - q') = 2 ^ nat (q - q')"
      using True by (simp add: power_int_def)
    finally have "y = of_int j * 2 powi q'"
      by (simp add: y_def j_def)
    then have "fl y = y"
      unfolding q'_def by (rule fl_on_grid [OF y0])
    then show ?thesis by (simp add: y_def)
  next
    case False
    with e q have q1: "q' = q + 1" and e1: "binade y = 53 + q"
      unfolding q'_def by linarith+
    from b have "(2::real) powi (53 + q) \<le> of_int \<bar>k\<bar> * 2 powi q"
      unfolding e1 ay .
    then have "(2::real) ^ 53 * 2 powi q \<le> of_int \<bar>k\<bar> * 2 powi q"
      by (simp add: power_int_add)
    then have "(2::real) ^ 53 \<le> of_int \<bar>k\<bar>"
      by simp
    then have "2 ^ 53 \<le> \<bar>k\<bar>"
      by (metis of_int_le_iff of_int_numeral of_int_power)
    with k have kk: "\<bar>k\<bar> = 2 ^ 53" by linarith
    define j where "j = k div 2"
    have "even k"
      using kk by (metis abs_numeral abs_power2 dvd_abs_iff even_numeral even_power
          numeral_eq_Suc zero_less_Suc)
    then have kj: "k = 2 * j"
      by (simp add: j_def)
    have "(2::real) powi (q + 1) = 2 * 2 powi q"
      by (simp add: power_int_add)
    then have "y = of_int j * 2 powi q'"
      by (simp add: y_def kj q1)
    then have "fl y = y"
      unfolding q'_def by (rule fl_on_grid [OF y0])
    then show ?thesis by (simp add: y_def)
  qed
qed

lemma fl_idem: "fl (fl x) = fl x"
proof (cases "x = 0")
  case True
  then show ?thesis by (simp add: fl_zero)
next
  case False
  define q where "q = max (binade x - 52) (- 1074)"
  define k where "k = py_round (x / 2 powi q)"
  have fx: "fl x = of_int k * 2 powi q"
    using False by (simp add: fl_def Let_def q_def k_def)
  have q: "- 1074 \<le> q" "binade x + 1 - q \<le> 53"
    unfolding q_def by linarith+
  from binade_bracket [OF False]
  have "\<bar>x\<bar> < 2 powi (binade x + 1)"
    by simp
  also have "(2::real) powi (binade x + 1) \<le> 2 powi (53 + q)"
    using q(2) by (intro power_int_increasing) simp_all
  also have "\<dots> = 2 ^ 53 * 2 powi q"
    by (simp add: power_int_add)
  finally have "\<bar>x\<bar> / 2 powi q < 2 ^ 53"
    by (simp add: field_simps)
  then have "\<bar>x / 2 powi q\<bar> < 2 ^ 53"
    by simp
  moreover have c: "real_of_int (2 ^ 53) = 2 ^ 53" "real_of_int (- (2 ^ 53)) = - (2 ^ 53)"
    by simp_all
  ultimately have u: "x / 2 powi q \<le> of_int (2 ^ 53)"
    and l: "of_int (- (2 ^ 53)) \<le> x / 2 powi q"
    unfolding c by linarith+
  have "k \<le> 2 ^ 53"
    unfolding k_def using u by (rule py_round_le_int)
  moreover have "- (2 ^ 53) \<le> k"
    unfolding k_def using l by (rule py_round_ge_int)
  ultimately have "\<bar>k\<bar> \<le> 2 ^ 53"
    by linarith
  from fl_representable [OF q(1) this] show ?thesis
    unfolding fx .
qed


lemma fmul_commute: "fmul a b = fmul b a"
  by (simp add: fmul_def mult.commute)

lemma fmul_zero_right: "fmul a 0 = 0"
  by (simp add: fmul_def fl_zero)

lemma fadd_zero_right: "fadd (fl x) 0 = fl x"
  by (simp add: fadd_def fl_idem)

lemma fadd_fmul_zero: "fadd (fmul a b) (fmul c 0) = fmul a b"
  unfolding fmul_zero_right unfolding fmul_def by (rule fadd_zero_right)

lemma fl_small:
  "fl 100 = 100" "fl 96 = 96" "fl 80 = 80" "fl 68 = 68" "fl 58 = 58" "fl 7 = 7"
  by code_simp+

lemma py_float_small:
  "py_float (PInt 80) = Inr 80" "py_float (PInt 68) = Inr 68"
  "py_float (PInt 58) = Inr 58" "py_float (PInt 7) = Inr 7"
  by (simp_all add: fl_small)

lemma fl_literals:
  "fl (3 / 4) = 3 / 4" "fl (1 / 4) = 1 / 4" "fl (1 / 2) = 1 / 2"
  "fl (1 / 10) = 3602879701896397 / 36028797018963968"
  "fl (3 / 10) = 5404319552844595 / 18014398509481984"
  "fl (1923 / 50) = 5412763802145915 / 140737488355328"
  by code_simp+

section \<open>The analysis pipeline\<close>


lemma fst_and_then_pure:
  "fst (and_then (pure r) f) = (case r of Inl e \<Rightarrow> Inl e | Inr x \<Rightarrow> fst (f x))"
  by (simp add: and_then_def pure_def split: sum.splits prod.splits)

lemma fst_and_then_lift: "fst (and_then (lift m) f) = fst (f (fst m))"
  by (simp add: and_then_def lift_def split: prod.splits)

lemma fst_ret: "fst (ret x) = Inr x"
  by (simp add: ret_def)

lemma fst_and_then:
  "fst (and_then m f) = (case fst m of Inl e \<Rightarrow> Inl e | Inr x \<Rightarrow> fst (f x))"
  by (simp add: and_then_def split: sum.splits prod.splits)

lemma get_instance_llm:
  "get_instance w = Inr w' \<Longrightarrow> llm w' = llm w \<and> tensor_lib w' = tensor_lib w"
  by (auto simp: get_instance_def SemanticModel_init_def split: if_splits option.splits sum.splits)

lemma scores_inversion:
  assumes "fst (analyze_resume_scores w jd jt rt) = Inr l"
  obtains w' sets res_tech res_soft c s where
    "get_instance w = Inr w'"
    "py_iter (dict_get (fst (extract_all_skills (llm w) rt)) ''skill_sets'' (PList [])) = Inr sets"
    "category_skills ''TECHNICAL'' sets = Inr res_tech"
    "category_skills ''SOFT'' sets = Inr res_soft"
    "py_float (dict_get (fst (get_content_score (llm w) rt jt)) ''score'' (PInt 0)) = Inr c"
    "py_float (dict_get (fst (get_structure_score (llm w) rt)) ''score'' (PInt 0)) = Inr s"
    "tech_input l = first_or_empty res_tech"
    "soft_input l = first_or_empty res_soft"
    "tech_score l = fl (fst (score (tensor_lib w) (SemanticModel_model w')
       (dict_get (fst (get_required_skills (llm w) jd)) ''technical_skills'' (PList []))
       (tech_input l)))"
    "soft_score l = fl (fst (score (tensor_lib w) (SemanticModel_model w')
       (dict_get (fst (get_required_skills (llm w) jd)) ''soft_skills'' (PList []))
       (soft_input l)))"
    "skill_match_score l = fadd (fmul (fl 0.75) (tech_score l)) (fmul (fl 0.25) (soft_score l))"
    "ats_match_score l
       = fl (fst (score (tensor_lib w) (SemanticModel_model w') (PStr jd) (PStr rt)))"
    "content_score l = dict_get (fst (get_content_score (llm w) rt jt)) ''score'' (PInt 0)"
    "structure_score l = dict_get (fst (get_structure_score (llm w) rt)) ''score'' (PInt 0)"
    "overall_score l =
       py_round (fadd (fadd (fadd (fmul (ats_match_score l) (fl 0.5))
                                  (fmul (skill_match_score l) (fl 0.3)))
                            (fmul c (fl 0.1)))
                      (fmul s (fl 0.1)))"
proof -
  from assms obtain w' where w': "get_instance w = Inr w'"
    unfolding analyze_resume_scores_def fst_and_then_pure
    by (auto split: sum.splits)
  note eqs = get_instance_llm [OF w']
  show ?thesis
    using assms that [OF w'] unfolding analyze_resume_scores_def Let_def
    by (auto simp: fst_and_then_pure fst_and_then_lift fst_ret w' eqs split: sum.splits)
qed

lemma analyze_resume_inversion:
  assumes "fst (analyze_resume w jd jt rt) = Inr resp"
  obtains l where
    "fst (analyze_resume_scores w jd jt rt) = Inr l"
    "content resp =
       [(''success'', PBool True),
        (''overall_score'', PInt (overall_score l)),
        (''scores'', PDict
           [(''ats_compatibility_score'', PInt (py_round (ats_match_score l))),
            (''skill_match_score'', PInt (py_round (skill_match_score l))),
            (''content_quality_score'', content_score l),
            (''structure_score'', structure_score l)]),
        (''improvements_suggestion'', PDict (fst (get_professional_summary_suggestions (llm w)
           (PInt (overall_score l)) rt jt)))]"
    "status_code resp = 200"
proof -
  from assms have t: "fst (analyze_resume_try w jd jt rt) = Inr resp"
    unfolding analyze_resume_def by (auto split: prod.splits sum.splits)
  then obtain l where l: "fst (analyze_resume_scores w jd jt rt) = Inr l"
    unfolding analyze_resume_try_def fst_and_then by (auto split: sum.splits)
  from t l have "resp = \<lparr> status_code = 200,
           content =
             [(''success'', PBool True),
              (''overall_score'', PInt (overall_score l)),
              (''scores'', PDict
                 [(''ats_compatibility_score'', PInt (py_round (ats_match_score l))),
                  (''skill_match_score'', PInt (py_round (skill_match_score l))),
                  (''content_quality_score'', content_score l),
                  (''structure_score'', structure_score l)]),
              (''improvements_suggestion'', PDict (fst (get_professional_summary_suggestions
                 (llm w) (PInt (overall_score l)) rt jt)))] \<rparr>"
    unfolding analyze_resume_try_def fst_and_then
    by (simp add: lift_def fst_ret)
  then show ?thesis using that l by simp
qed

lemma fst_analyze_resume:
  "fst (analyze_resume w jd jt rt) =
     (case fst (analyze_resume_try w jd jt rt) of
        Inl e \<Rightarrow> Inl (HTTPException 500 (''Internal server error during analysis: '' @ exn_str e))
      | Inr r \<Rightarrow> Inr r)"
  unfolding analyze_resume_def by (auto split: prod.splits sum.splits)

lemma score_empty_left: "score ops M (PList []) x = (0, [])"
  by (cases M; cases x) (simp_all add: score_of_try score_try_def raise_def ret_def)

lemma score_empty_right: "score ops M x (PList []) = (0, [])"
  by (cases M; cases x) (simp_all add: score_of_try score_try_def raise_def ret_def)


lemma scores_eval:
  assumes "get_instance w = Inr w'"
    and "py_iter (dict_get (fst (extract_all_skills (llm w') rt)) ''skill_sets'' (PList []))
           = Inr sets"
    and "category_skills ''TECHNICAL'' sets = Inr res_tech"
    and "category_skills ''SOFT'' sets = Inr res_soft"
    and "fl (fst (score (tensor_lib w') (SemanticModel_model w')
           (dict_get (fst (get_required_skills (llm w') jd)) ''technical_skills'' (PList []))
           (first_or_empty res_tech))) = tech"
    and "fl (fst (score (tensor_lib w') (SemanticModel_model w')
           (dict_get (fst (get_required_skills (llm w') jd)) ''soft_skills'' (PList []))
           (first_or_empty res_soft))) = soft"
    and "fl (fst (score (tensor_lib w') (SemanticModel_model w') (PStr jd) (PStr rt))) = ats"
    and "dict_get (fst (get_content_score (llm w') rt jt)) ''score'' (PInt 0) = cv"
    and "dict_get (fst (get_structure_score (llm w') rt)) ''score'' (PInt 0) = sv"
    and "py_float cv = Inr c" and "py_float sv = Inr s"
  shows "fst (analyze_resume_scores w jd jt rt) =
     Inr \<lparr> tech_input = first_or_empty res_tech, soft_input = first_or_empty res_soft,
           tech_score = tech, soft_score = soft,
           skill_match_score = fadd (fmul (fl 0.75) tech) (fmul (fl 0.25) soft),
           ats_match_score = ats, content_score = cv, structure_score = sv,
           overall_score =
             py_round (fadd (fadd (fadd (fmul ats (fl 0.5))
                 (fmul (fadd (fmul (fl 0.75) tech) (fmul (fl 0.25) soft)) (fl 0.3)))
                 (fmul c (fl 0.1))) (fmul s (fl 0.1))) \<rparr>"
  unfolding analyze_resume_scores_def Let_def
  using assms by (simp add: fst_and_then_pure fst_and_then_lift fst_ret)

lemma demo_worlds_instance:
  "get_instance demo_world = Inr demo_world"
  "get_instance soft_world = Inr soft_world"
  "get_instance tie_world = Inr tie_world"
  by (simp_all add: get_instance_def demo_world_def soft_world_def tie_world_def)

lemma demo_worlds_fields:
  "llm demo_world = demo_llm" "llm soft_world = soft_llm" "llm tie_world = tie_llm"
  "tensor_lib demo_world = demo_ops" "tensor_lib soft_world = demo_ops"
  "tensor_lib tie_world = demo_ops"
  "SemanticModel_model demo_world = Some demo_model"
  "SemanticModel_model soft_world = Some demo_model"
  "SemanticModel_model tie_world = Some demo_model"
  by (simp_all add: demo_world_def soft_world_def tie_world_def)

lemma length_demo_resume: "length demo_resume = 59"
  by (simp add: demo_resume_def)

lemma demo_resume_long: "\<not> (demo_resume = [] \<or> length demo_resume < 50)"
  using length_demo_resume by auto

lemma demo_skill_sets_raw:
  "dict_get (fst (extract_all_skills demo_llm demo_resume)) ''skill_sets'' (PList [])
     = PList (map model_dump_SkillCategory demo_cats)"
  "dict_get (fst (extract_all_skills soft_llm demo_resume)) ''skill_sets'' (PList [])
     = PList [model_dump_SkillCategory (SkillCategory ''SOFT'' [''SQL'']),
              model_dump_SkillCategory (SkillCategory ''TECHNICAL'' [''Python'', ''SQL'']),
              model_dump_SkillCategory (SkillCategory ''SOFT'' [''teamwork''])]"
  "dict_get (fst (extract_all_skills orc ''Short CV'')) ''skill_sets'' (PList []) = PList []"
  using demo_resume_long
  by (simp_all add: extract_all_skills_def demo_llm_def soft_llm_def
      model_dump_CandidateSkills_def dict_get_def)

lemma demo_category_skills:
  "category_skills ''TECHNICAL'' (map model_dump_SkillCategory demo_cats)
     = Inr [PList [PStr ''Python'', PStr ''SQL''], PList [PStr ''COBOL'']]"
  "category_skills ''SOFT'' (map model_dump_SkillCategory demo_cats)
     = Inr [PList [], PList [PStr ''teamwork'']]"
  "category_skills ''TECHNICAL''
     [model_dump_SkillCategory (SkillCategory ''SOFT'' [''SQL'']),
      model_dump_SkillCategory (SkillCategory ''TECHNICAL'' [''Python'', ''SQL'']),
      model_dump_SkillCategory (SkillCategory ''SOFT'' [''teamwork''])]
     = Inr [PList [PStr ''Python'', PStr ''SQL'']]"
  "category_skills ''SOFT''
     [model_dump_SkillCategory (SkillCategory ''SOFT'' [''SQL'']),
      model_dump_SkillCategory (SkillCategory ''TECHNICAL'' [''Python'', ''SQL'']),
      model_dump_SkillCategory (SkillCategory ''SOFT'' [''teamwork''])]
     = Inr [PList [PStr ''SQL''], PList [PStr ''teamwork'']]"
  by (simp_all add: demo_cats_def model_dump_SkillCategory_def dict_get_def)

lemma demo_required:
  "fst (get_required_skills demo_llm jd) =
     [(''technical_skills'', PList [PStr ''SQL'', PStr ''Python'']),
      (''soft_skills'', PList [PStr ''communication''])]"
  "fst (get_required_skills soft_llm jd) =
     [(''technical_skills'', PList [PStr ''SQL'', PStr ''Python'']),
      (''soft_skills'', PList [PStr ''communication''])]"
  "fst (get_required_skills tie_llm jd) =
     [(''technical_skills'', PList [PStr ''SQL'', PStr ''Python'']),
      (''soft_skills'', PList [PStr ''communication''])]"
  by (simp_all add: get_required_skills_def demo_llm_def soft_llm_def tie_llm_def)

lemma demo_assessors:
  "dict_get (fst (get_content_score demo_llm rt jt)) ''score'' (PInt 0) = PInt 80"
  "dict_get (fst (get_structure_score demo_llm rt)) ''score'' (PInt 0) = PInt 68"
  "dict_get (fst (get_content_score soft_llm rt jt)) ''score'' (PInt 0) = PInt 80"
  "dict_get (fst (get_structure_score soft_llm rt)) ''score'' (PInt 0) = PInt 68"
  "dict_get (fst (get_content_score tie_llm rt jt)) ''score'' (PInt 0) = PInt 58"
  "dict_get (fst (get_structure_score tie_llm rt)) ''score'' (PInt 0) = PInt 7"
  by (simp_all add: get_content_score_def get_structure_score_def demo_llm_def soft_llm_def
      tie_llm_def dict_get_def)

lemma demo_tech_score:
  "fst (score demo_ops (Some demo_model) (PList [PStr ''SQL'', PStr ''Python''])
     (PList [PStr ''Python'', PStr ''SQL''])) = 100"
proof -
  have "score_try demo_ops (Some demo_model) (PList [PStr ''SQL'', PStr ''Python''])
     (PList [PStr ''Python'', PStr ''SQL'']) =
     (case cos_sim demo_ops [4, 8] [4, 8] of Inl e \<Rightarrow> Inl e | Inr s \<Rightarrow> Inr (score_value s),
      [EncodeCall [PStr ''SQL'', PStr ''Python''], EncodeCall [PStr ''Python'', PStr ''SQL'']])"
  proof (rule score_try_list)
    show "demo_model [PStr ''SQL'', PStr ''Python''] = Inr [[3, 4], [5, 12]]"
      by (simp add: demo_model_def demo_embed_def)
    show "demo_model [PStr ''Python'', PStr ''SQL''] = Inr [[5, 12], [3, 4]]"
      by (simp add: demo_model_def demo_embed_def)
  qed (simp_all add: demo_mean_eval)
  then show ?thesis
    by (simp add: score_of_try demo_cos_eval score_value_eval)
qed

lemma demo_soft_score:
  "fst (score demo_ops (Some demo_model) (PList [PStr ''communication''])
     (PList [PStr ''SQL''])) = 96"
proof -
  have "score_try demo_ops (Some demo_model) (PList [PStr ''communication''])
     (PList [PStr ''SQL'']) =
     (case cos_sim demo_ops [4, 3] [3, 4] of Inl e \<Rightarrow> Inl e | Inr s \<Rightarrow> Inr (score_value s),
      [EncodeCall [PStr ''communication''], EncodeCall [PStr ''SQL'']])"
  proof (rule score_try_list)
    show "demo_model [PStr ''communication''] = Inr [[4, 3]]"
      by (simp add: demo_model_def demo_embed_def)
    show "demo_model [PStr ''SQL''] = Inr [[3, 4]]"
      by (simp add: demo_model_def demo_embed_def)
  qed (simp_all add: demo_ops_def)
  moreover have "cos_sim demo_ops [4, 3] [3, 4] = Inr (24 / 25)"
    by (simp add: demo_ops_def demo_dot_def sqrt_25)
  moreover have "score_value (24 / 25) = 96"
    by (simp add: score_value_def py_round_ndigits_def py_round_def Let_def)
  ultimately show ?thesis
    by (simp add: score_of_try)
qed

lemma demo_ats_score:
  "fst (score demo_ops (Some demo_model) (PStr ''Python'') (PStr demo_resume)) = 38.46"
  "fst (score demo_ops (Some demo_model) (PStr ''Python'') (PStr ''Short CV'')) = 38.46"
  "fst (score demo_ops (Some demo_model) (PStr ''teamwork'') (PStr ''Short CV'')) = 0"
proof -
  have "score_try demo_ops (Some demo_model) (PStr ''Python'') (PStr demo_resume) =
     (case cos_sim demo_ops [5, 12] [1, 0] of Inl e \<Rightarrow> Inl e | Inr s \<Rightarrow> Inr (score_value s),
      [EncodeCall [PStr ''Python'', PStr demo_resume]])"
    by (rule score_try_str) (simp add: demo_model_def demo_embed_def demo_resume_def)
  then show "fst (score demo_ops (Some demo_model) (PStr ''Python'') (PStr demo_resume)) = 38.46"
    by (simp add: score_of_try demo_cos_eval score_value_eval)
  have "score_try demo_ops (Some demo_model) (PStr ''Python'') (PStr ''Short CV'') =
     (case cos_sim demo_ops [5, 12] [1, 0] of Inl e \<Rightarrow> Inl e | Inr s \<Rightarrow> Inr (score_value s),
      [EncodeCall [PStr ''Python'', PStr ''Short CV'']])"
    by (rule score_try_str) (simp add: demo_model_def demo_embed_def)
  then show "fst (score demo_ops (Some demo_model) (PStr ''Python'') (PStr ''Short CV'')) = 38.46"
    by (simp add: score_of_try demo_cos_eval score_value_eval)
  have "score_try demo_ops (Some demo_model) (PStr ''teamwork'') (PStr ''Short CV'') =
     (case cos_sim demo_ops [- 4, - 3] [1, 0] of Inl e \<Rightarrow> Inl e
      | Inr s \<Rightarrow> Inr (score_value s),
      [EncodeCall [PStr ''teamwork'', PStr ''Short CV'']])"
    by (rule score_try_str) (simp add: demo_model_def demo_embed_def)
  moreover have "cos_sim demo_ops [- 4, - 3] [1, 0] = Inr (- (4 / 5))"
    by (simp add: demo_ops_def demo_dot_def sqrt_25)
  ultimately show
    "fst (score demo_ops (Some demo_model) (PStr ''teamwork'') (PStr ''Short CV'')) = 0"
    by (simp add: score_of_try score_value_neg)
qed


lemma first_or_empty_eval:
  "first_or_empty [PList [PStr ''Python'', PStr ''SQL''], PList [PStr ''COBOL'']]
     = PList [PStr ''Python'', PStr ''SQL'']"
  "first_or_empty [PList [], PList [PStr ''teamwork'']] = PList []"
  "first_or_empty [PList [PStr ''Python'', PStr ''SQL'']] = PList [PStr ''Python'', PStr ''SQL'']"
  "first_or_empty [PList [PStr ''SQL''], PList [PStr ''teamwork'']] = PList [PStr ''SQL'']"
  "first_or_empty [] = PList []"
  by (simp_all add: first_or_empty_def)

lemma demo_arith:
  "fadd (fmul (fl 0.75) 100) (fmul (fl 0.25) 0) = 75"
  "fadd (fmul (fl 0.75) 100) (fmul (fl 0.25) 96) = 99"
  "fadd (fmul (fl 0.75) 0) (fmul (fl 0.25) 0) = 0"
  "py_round (fadd (fadd (fadd (fmul (fl 38.46) (fl 0.5)) (fmul 75 (fl 0.3)))
       (fmul 80 (fl 0.1))) (fmul 68 (fl 0.1))) = 57"
  "py_round (fadd (fadd (fadd (fmul (fl 38.46) (fl 0.5)) (fmul 99 (fl 0.3)))
       (fmul 80 (fl 0.1))) (fmul 68 (fl 0.1))) = 64"
  "py_round (fadd (fadd (fadd (fmul (fl 38.46) (fl 0.5)) (fmul 0 (fl 0.3)))
       (fmul 80 (fl 0.1))) (fmul 68 (fl 0.1))) = 34"
  "py_round (fadd (fadd (fadd (fmul 0 (fl 0.5)) (fmul 0 (fl 0.3)))
       (fmul 58 (fl 0.1))) (fmul 7 (fl 0.1))) = 7"
  by code_simp+

lemma demo_scores:
  "fst (analyze_resume_scores demo_world ''Python'' ''Backend Developer'' demo_resume) =
     Inr \<lparr> tech_input = PList [PStr ''Python'', PStr ''SQL''], soft_input = PList [],
           tech_score = 100, soft_score = 0, skill_match_score = 75,
           ats_match_score = fl 38.46, content_score = PInt 80, structure_score = PInt 68,
           overall_score = 57 \<rparr>"
proof -
  have "fst (analyze_resume_scores demo_world ''Python'' ''Backend Developer'' demo_resume) =
     Inr \<lparr> tech_input = first_or_empty [PList [PStr ''Python'', PStr ''SQL''],
                                         PList [PStr ''COBOL'']],
           soft_input = first_or_empty [PList [], PList [PStr ''teamwork'']],
           tech_score = 100, soft_score = 0,
           skill_match_score = fadd (fmul (fl 0.75) 100) (fmul (fl 0.25) 0),
           ats_match_score = fl 38.46, content_score = PInt 80, structure_score = PInt 68,
           overall_score =
             py_round (fadd (fadd (fadd (fmul (fl 38.46) (fl 0.5))
                 (fmul (fadd (fmul (fl 0.75) 100) (fmul (fl 0.25) 0)) (fl 0.3)))
                 (fmul 80 (fl 0.1))) (fmul 68 (fl 0.1))) \<rparr>"
  proof (rule scores_eval)
    show "get_instance demo_world = Inr demo_world"
      by (rule demo_worlds_instance)
    show "py_iter (dict_get (fst (extract_all_skills (llm demo_world) demo_resume))
        ''skill_sets'' (PList [])) = Inr (map model_dump_SkillCategory demo_cats)"
      by (simp add: demo_worlds_fields demo_skill_sets_raw)
    show "category_skills ''TECHNICAL'' (map model_dump_SkillCategory demo_cats)
        = Inr [PList [PStr ''Python'', PStr ''SQL''], PList [PStr ''COBOL'']]"
      by (rule demo_category_skills)
    show "category_skills ''SOFT'' (map model_dump_SkillCategory demo_cats)
        = Inr [PList [], PList [PStr ''teamwork'']]"
      by (rule demo_category_skills)
    show "fl (fst (score (tensor_lib demo_world) (SemanticModel_model demo_world)
           (dict_get (fst (get_required_skills (llm demo_world) ''Python''))
              ''technical_skills'' (PList []))
           (first_or_empty [PList [PStr ''Python'', PStr ''SQL''], PList [PStr ''COBOL'']])))
          = 100"
      by (simp add: demo_worlds_fields demo_required dict_get_def first_or_empty_eval
          demo_tech_score fl_small)
    show "fl (fst (score (tensor_lib demo_world) (SemanticModel_model demo_world)
           (dict_get (fst (get_required_skills (llm demo_world) ''Python''))
              ''soft_skills'' (PList []))
           (first_or_empty [PList [], PList [PStr ''teamwork'']]))) = 0"
      by (simp add: first_or_empty_eval score_empty_right fl_zero)
    show "fl (fst (score (tensor_lib demo_world) (SemanticModel_model demo_world)
           (PStr ''Python'') (PStr demo_resume))) = fl 38.46"
      by (simp add: demo_worlds_fields demo_ats_score)
    show "dict_get (fst (get_content_score (llm demo_world) demo_resume ''Backend Developer''))
        ''score'' (PInt 0) = PInt 80"
      by (simp add: demo_worlds_fields demo_assessors)
    show "dict_get (fst (get_structure_score (llm demo_world) demo_resume))
        ''score'' (PInt 0) = PInt 68"
      by (simp add: demo_worlds_fields demo_assessors)
  qed (rule py_float_small)+
  then show ?thesis
    unfolding demo_arith first_or_empty_eval .
qed


lemma soft_scores:
  "fst (analyze_resume_scores soft_world ''Python'' ''Backend Developer'' demo_resume) =
     Inr \<lparr> tech_input = PList [PStr ''Python'', PStr ''SQL''],
           soft_input = PList [PStr ''SQL''],
           tech_score = 100, soft_score = 96, skill_match_score = 99,
           ats_match_score = fl 38.46, content_score = PInt 80, structure_score = PInt 68,
           overall_score = 64 \<rparr>"
proof -
  have "fst (analyze_resume_scores soft_world ''Python'' ''Backend Developer'' demo_resume) =
     Inr \<lparr> tech_input = first_or_empty [PList [PStr ''Python'', PStr ''SQL'']],
           soft_input = first_or_empty [PList [PStr ''SQL''], PList [PStr ''teamwork'']],
           tech_score = 100, soft_score = 96,
           skill_match_score = fadd (fmul (fl 0.75) 100) (fmul (fl 0.25) 96),
           ats_match_score = fl 38.46, content_score = PInt 80, structure_score = PInt 68,
           overall_score =
             py_round (fadd (fadd (fadd (fmul (fl 38.46) (fl 0.5))
                 (fmul (fadd (fmul (fl 0.75) 100) (fmul (fl 0.25) 96)) (fl 0.3)))
                 (fmul 80 (fl 0.1))) (fmul 68 (fl 0.1))) \<rparr>"
  proof (rule scores_eval)
    show "get_instance soft_world = Inr soft_world"
      by (rule demo_worlds_instance)
    show "py_iter (dict_get (fst (extract_all_skills (llm soft_world) demo_resume))
        ''skill_sets'' (PList [])) =
        Inr [model_dump_SkillCategory (SkillCategory ''SOFT'' [''SQL'']),
             model_dump_SkillCategory (SkillCategory ''TECHNICAL'' [''Python'', ''SQL'']),
             model_dump_SkillCategory (SkillCategory ''SOFT'' [''teamwork''])]"
      by (simp only: demo_worlds_fields demo_skill_sets_raw py_iter.simps)
    show "category_skills ''TECHNICAL''
        [model_dump_SkillCategory (SkillCategory ''SOFT'' [''SQL'']),
         model_dump_SkillCategory (SkillCategory ''TECHNICAL'' [''Python'', ''SQL'']),
         model_dump_SkillCategory (SkillCategory ''SOFT'' [''teamwork''])]
        = Inr [PList [PStr ''Python'', PStr ''SQL'']]"
      by (rule demo_category_skills)
    show "category_skills ''SOFT''
        [model_dump_SkillCategory (SkillCategory ''SOFT'' [''SQL'']),
         model_dump_SkillCategory (SkillCategory ''TECHNICAL'' [''Python'', ''SQL'']),
         model_dump_SkillCategory (SkillCategory ''SOFT'' [''teamwork''])]
        = Inr [PList [PStr ''SQL''], PList [PStr ''teamwork'']]"
      by (rule demo_category_skills)
    show "fl (fst (score (tensor_lib soft_world) (SemanticModel_model soft_world)
           (dict_get (fst (get_required_skills (llm soft_world) ''Python''))
              ''technical_skills'' (PList []))
           (first_or_empty [PList [PStr ''Python'', PStr ''SQL'']]))) = 100"
      by (simp add: demo_worlds_fields demo_required dict_get_def first_or_empty_eval
          demo_tech_score fl_small)
    show "fl (fst (score (tensor_lib soft_world) (SemanticModel_model soft_world)
           (dict_get (fst (get_required_skills (llm soft_world) ''Python''))
              ''soft_skills'' (PList []))
           (first_or_empty [PList [PStr ''SQL''], PList [PStr ''teamwork'']]))) = 96"
      by (simp add: demo_worlds_fields demo_required dict_get_def first_or_empty_eval
          demo_soft_score fl_small)
    show "fl (fst (score (tensor_lib soft_world) (SemanticModel_model soft_world)
           (PStr ''Python'') (PStr demo_resume))) = fl 38.46"
      by (simp add: demo_worlds_fields demo_ats_score)
    show "dict_get (fst (get_content_score (llm soft_world) demo_resume ''Backend Developer''))
        ''score'' (PInt 0) = PInt 80"
      by (simp add: demo_worlds_fields demo_assessors)
    show "dict_get (fst (get_structure_score (llm soft_world) demo_resume))
        ''score'' (PInt 0) = PInt 68"
      by (simp add: demo_worlds_fields demo_assessors)
  qed (rule py_float_small)+
  then show ?thesis
    unfolding demo_arith first_or_empty_eval .
qed

lemma tie_scores:
  "fst (analyze_resume_scores tie_world ''teamwork'' ''Backend Developer'' ''Short CV'') =
     Inr \<lparr> tech_input = PList [], soft_input = PList [],
           tech_score = 0, soft_score = 0, skill_match_score = 0,
           ats_match_score = 0, content_score = PInt 58, structure_score = PInt 7,
           overall_score = 7 \<rparr>"
proof -
  have "fst (analyze_resume_scores tie_world ''teamwork'' ''Backend Developer'' ''Short CV'') =
     Inr \<lparr> tech_input = first_or_empty [], soft_input = first_or_empty [],
           tech_score = 0, soft_score = 0,
           skill_match_score = fadd (fmul (fl 0.75) 0) (fmul (fl 0.25) 0),
           ats_match_score = 0, content_score = PInt 58, structure_score = PInt 7,
           overall_score =
             py_round (fadd (fadd (fadd (fmul 0 (fl 0.5))
                 (fmul (fadd (fmul (fl 0.75) 0) (fmul (fl 0.25) 0)) (fl 0.3)))
                 (fmul 58 (fl 0.1))) (fmul 7 (fl 0.1))) \<rparr>"
  proof (rule scores_eval)
    show "get_instance tie_world = Inr tie_world"
      by (rule demo_worlds_instance)
    show "py_iter (dict_get (fst (extract_all_skills (llm tie_world) ''Short CV''))
        ''skill_sets'' (PList [])) = Inr []"
      by (simp only: demo_skill_sets_raw py_iter.simps)
    show "category_skills ''TECHNICAL'' [] = Inr []" "category_skills ''SOFT'' [] = Inr []"
      by simp_all
    show "fl (fst (score (tensor_lib tie_world) (SemanticModel_model tie_world)
           (dict_get (fst (get_required_skills (llm tie_world) ''teamwork''))
              ''technical_skills'' (PList []))
           (first_or_empty []))) = 0"
      by (simp add: first_or_empty_eval score_empty_right fl_zero)
    show "fl (fst (score (tensor_lib tie_world) (SemanticModel_model tie_world)
           (dict_get (fst (get_required_skills (llm tie_world) ''teamwork''))
              ''soft_skills'' (PList []))
           (first_or_empty []))) = 0"
      by (simp add: first_or_empty_eval score_empty_right fl_zero)
    show "fl (fst (score (tensor_lib tie_world) (SemanticModel_model tie_world)
           (PStr ''teamwork'') (PStr ''Short CV''))) = 0"
      by (simp add: demo_worlds_fields demo_ats_score fl_zero)
    show "dict_get (fst (get_content_score (llm tie_world) ''Short CV'' ''Backend Developer''))
        ''score'' (PInt 0) = PInt 58"
      by (simp add: demo_worlds_fields demo_assessors)
    show "dict_get (fst (get_structure_score (llm tie_world) ''Short CV''))
        ''score'' (PInt 0) = PInt 7"
      by (simp add: demo_worlds_fields demo_assessors)
  qed (rule py_float_small)+
  then show ?thesis
    unfolding demo_arith first_or_empty_eval .
qed

lemma demo_scores_short:
  "fst (analyze_resume_scores demo_world ''Python'' ''Backend Developer'' ''Short CV'') =
     Inr \<lparr> tech_input = PList [], soft_input = PList [],
           tech_score = 0, soft_score = 0, skill_match_score = 0,
           ats_match_score = fl 38.46, content_score = PInt 80, structure_score = PInt 68,
           overall_score = 34 \<rparr>"
proof -
  have "fst (analyze_resume_scores demo_world ''Python'' ''Backend Developer'' ''Short CV'') =
     Inr \<lparr> tech_input = first_or_empty [], soft_input = first_or_empty [],
           tech_score = 0, soft_score = 0,
           skill_match_score = fadd (fmul (fl 0.75) 0) (fmul (fl 0.25) 0),
           ats_match_score = fl 38.46, content_score = PInt 80, structure_score = PInt 68,
           overall_score =
             py_round (fadd (fadd (fadd (fmul (fl 38.46) (fl 0.5))
                 (fmul (fadd (fmul (fl 0.75) 0) (fmul (fl 0.25) 0)) (fl 0.3)))
                 (fmul 80 (fl 0.1))) (fmul 68 (fl 0.1))) \<rparr>"
  proof (rule scores_eval)
    show "get_instance demo_world = Inr demo_world"
      by (rule demo_worlds_instance)
    show "py_iter (dict_get (fst (extract_all_skills (llm demo_world) ''Short CV''))
        ''skill_sets'' (PList [])) = Inr []"
      by (simp only: demo_skill_sets_raw py_iter.simps)
    show "category_skills ''TECHNICAL'' [] = Inr []" "category_skills ''SOFT'' [] = Inr []"
      by simp_all
    show "fl (fst (score (tensor_lib demo_world) (SemanticModel_model demo_world)
           (dict_get (fst (get_required_skills (llm demo_world) ''Python''))
              ''technical_skills'' (PList []))
           (first_or_empty []))) = 0"
      by (simp add: first_or_empty_eval score_empty_right fl_zero)
    show "fl (fst (score (tensor_lib demo_world) (SemanticModel_model demo_world)
           (dict_get (fst (get_required_skills (llm demo_world) ''Python''))
              ''soft_skills'' (PList []))
           (first_or_empty []))) = 0"
      by (simp add: first_or_empty_eval score_empty_right fl_zero)
    show "fl (fst (score (tensor_lib demo_world) (SemanticModel_model demo_world)
           (PStr ''Python'') (PStr ''Short CV''))) = fl 38.46"
      by (simp add: demo_worlds_fields demo_ats_score)
    show "dict_get (fst (get_content_score (llm demo_world) ''Short CV'' ''Backend Developer''))
        ''score'' (PInt 0) = PInt 80"
      by (simp add: demo_worlds_fields demo_assessors)
    show "dict_get (fst (get_structure_score (llm demo_world) ''Short CV''))
        ''score'' (PInt 0) = PInt 68"
      by (simp add: demo_worlds_fields demo_assessors)
  qed (rule py_float_small)+
  then show ?thesis
    unfolding demo_arith first_or_empty_eval .
qed

text \<open>
  Claim C2. Whenever the pipeline computes its scores, \<^verbatim>\<open>tech_score\<close> and \<^verbatim>\<open>soft_score\<close> are the
  floats \<^verbatim>\<open>score\<close> returned for the technical and the soft phrase lists, and
  \<^verbatim>\<open>skill_match_score\<close> is \<^verbatim>\<open>0.75 * tech_score + 0.25 * soft_score\<close> in the arithmetic of doubles,
  whatever the two scores are. When the candidate soft-skill phrase list is empty,
  \<^verbatim>\<open>soft_score\<close> is 0 and \<^verbatim>\<open>skill_match_score\<close> is \<^verbatim>\<open>0.75 * tech_score\<close>.
\<close>

theorem skill_match_score_weights:
  assumes "fst (analyze_resume_scores w jd jt rt) = Inr l"
  shows "\<exists>w'. get_instance w = Inr w' \<and>
     tech_score l = fl (fst (score (tensor_lib w) (SemanticModel_model w')
       (dict_get (fst (get_required_skills (llm w) jd)) ''technical_skills'' (PList []))
       (tech_input l))) \<and>
     soft_score l = fl (fst (score (tensor_lib w) (SemanticModel_model w')
       (dict_get (fst (get_required_skills (llm w) jd)) ''soft_skills'' (PList []))
       (soft_input l))) \<and>
     skill_match_score l = fadd (fmul (fl 0.75) (tech_score l)) (fmul (fl 0.25) (soft_score l)) \<and>
     (soft_input l = PList [] \<longrightarrow>
        soft_score l = 0 \<and> skill_match_score l = fmul (fl 0.75) (tech_score l))"
  using assms
proof (rule scores_inversion)
  fix w'
  assume w': "get_instance w = Inr w'"
    and tech: "tech_score l = fl (fst (score (tensor_lib w) (SemanticModel_model w')
       (dict_get (fst (get_required_skills (llm w) jd)) ''technical_skills'' (PList []))
       (tech_input l)))"
    and soft: "soft_score l = fl (fst (score (tensor_lib w) (SemanticModel_model w')
       (dict_get (fst (get_required_skills (llm w) jd)) ''soft_skills'' (PList []))
       (soft_input l)))"
    and skill: "skill_match_score l
       = fadd (fmul (fl 0.75) (tech_score l)) (fmul (fl 0.25) (soft_score l))"
  have "soft_score l = 0 \<and> skill_match_score l = fmul (fl 0.75) (tech_score l)"
    if "soft_input l = PList []"
  proof -
    have s0: "soft_score l = 0"
      using soft that by (simp add: score_empty_right fl_zero)
    have "skill_match_score l = fadd (fmul (fl 0.75) (tech_score l)) (fmul (fl 0.25) 0)"
      using skill unfolding s0 .
    then show ?thesis
      using s0 by (simp only: fadd_fmul_zero simp_thms)
  qed
  with w' tech soft skill show ?thesis
    by blast
qed

theorem skill_match_score_weights_witness:
  "fst (analyze_resume_scores soft_world ''Python'' ''Backend Developer'' demo_resume) =
     Inr \<lparr> tech_input = PList [PStr ''Python'', PStr ''SQL''],
           soft_input = PList [PStr ''SQL''],
           tech_score = 100, soft_score = 96, skill_match_score = 99,
           ats_match_score = fl 38.46, content_score = PInt 80, structure_score = PInt 68,
           overall_score = 64 \<rparr> \<and>
   (99 :: real) = fadd (fmul (fl 0.75) 100) (fmul (fl 0.25) 96) \<and>
   fst (analyze_resume_scores demo_world ''Python'' ''Backend Developer'' demo_resume) =
     Inr \<lparr> tech_input = PList [PStr ''Python'', PStr ''SQL''], soft_input = PList [],
           tech_score = 100, soft_score = 0, skill_match_score = 75,
           ats_match_score = fl 38.46, content_score = PInt 80, structure_score = PInt 68,
           overall_score = 57 \<rparr> \<and>
   (75 :: real) = fmul (fl 0.75) 100"
proof -
  from skill_match_score_weights [OF soft_scores]
  have "skill_match_score \<lparr> tech_input = PList [PStr ''Python'', PStr ''SQL''],
           soft_input = PList [PStr ''SQL''],
           tech_score = 100, soft_score = 96, skill_match_score = 99,
           ats_match_score = fl 38.46, content_score = PInt 80, structure_score = PInt 68,
           overall_score = 64 \<rparr> =
        fadd (fmul (fl 0.75) (tech_score \<lparr> tech_input = PList [PStr ''Python'', PStr ''SQL''],
           soft_input = PList [PStr ''SQL''],
           tech_score = 100, soft_score = 96, skill_match_score = 99,
           ats_match_score = fl 38.46, content_score = PInt 80, structure_score = PInt 68,
           overall_score = 64 \<rparr>))
          (fmul (fl 0.25) (soft_score \<lparr> tech_input = PList [PStr ''Python'', PStr ''SQL''],
           soft_input = PList [PStr ''SQL''],
           tech_score = 100, soft_score = 96, skill_match_score = 99,
           ats_match_score = fl 38.46, content_score = PInt 80, structure_score = PInt 68,
           overall_score = 64 \<rparr>))"
    by blast
  then have a: "(99 :: real) = fadd (fmul (fl 0.75) 100) (fmul (fl 0.25) 96)"
    by (simp only: locals.select_convs)
  from skill_match_score_weights [OF demo_scores]
  have "soft_input \<lparr> tech_input = PList [PStr ''Python'', PStr ''SQL''], soft_input = PList [],
           tech_score = 100, soft_score = 0, skill_match_score = 75,
           ats_match_score = fl 38.46, content_score = PInt 80, structure_score = PInt 68,
           overall_score = 57 \<rparr> = PList [] \<longrightarrow>
        skill_match_score \<lparr> tech_input = PList [PStr ''Python'', PStr ''SQL''],
           soft_input = PList [],
           tech_score = 100, soft_score = 0, skill_match_score = 75,
           ats_match_score = fl 38.46, content_score = PInt 80, structure_score = PInt 68,
           overall_score = 57 \<rparr> =
        fmul (fl 0.75) (tech_score \<lparr> tech_input = PList [PStr ''Python'', PStr ''SQL''],
           soft_input = PList [],
           tech_score = 100, soft_score = 0, skill_match_score = 75,
           ats_match_score = fl 38.46, content_score = PInt 80, structure_score = PInt 68,
           overall_score = 57 \<rparr>)"
    by blast
  then have b: "(75 :: real) = fmul (fl 0.75) 100"
    by (simp only: locals.select_convs simp_thms)
  from a b soft_scores demo_scores show ?thesis
    by (intro conjI)
qed

text \<open>
  Claim C1. Whenever \<^verbatim>\<open>analyze_resume\<close> returns a response, its \<^verbatim>\<open>overall_score\<close> is
  \<^verbatim>\<open>round(0.5 * ats + 0.3 * skill + 0.1 * content + 0.1 * structure)\<close>, computed on doubles from
  left to right and rounded once at the end, where \<open>ats\<close> is the float \<^verbatim>\<open>score\<close> returned for
  the two documents, \<open>skill\<close> is the unrounded \<^verbatim>\<open>0.75 * tech_score + 0.25 * soft_score\<close> of the
  two floats \<^verbatim>\<open>score\<close> returned for the phrase lists, and \<open>content\<close> and \<open>structure\<close> are the
  scores of the two assessors. The entries of \<^verbatim>\<open>scores\<close> in the response are rounded
  separately, for display.
\<close>

theorem overall_score_formula:
  assumes "fst (analyze_resume w jd jt rt) = Inr resp"
  shows "\<exists>l w' c s.
     fst (analyze_resume_scores w jd jt rt) = Inr l \<and> get_instance w = Inr w' \<and>
     ats_match_score l =
       fl (fst (score (tensor_lib w) (SemanticModel_model w') (PStr jd) (PStr rt))) \<and>
     tech_score l = fl (fst (score (tensor_lib w) (SemanticModel_model w')
       (dict_get (fst (get_required_skills (llm w) jd)) ''technical_skills'' (PList []))
       (tech_input l))) \<and>
     soft_score l = fl (fst (score (tensor_lib w) (SemanticModel_model w')
       (dict_get (fst (get_required_skills (llm w) jd)) ''soft_skills'' (PList []))
       (soft_input l))) \<and>
     skill_match_score l = fadd (fmul (fl 0.75) (tech_score l)) (fmul (fl 0.25) (soft_score l)) \<and>
     content_score l = dict_get (fst (get_content_score (llm w) rt jt)) ''score'' (PInt 0) \<and>
     structure_score l = dict_get (fst (get_structure_score (llm w) rt)) ''score'' (PInt 0) \<and>
     py_float (content_score l) = Inr c \<and> py_float (structure_score l) = Inr s \<and>
     dict_get (content resp) ''overall_score'' PNone =
       PInt (py_round (fadd (fadd (fadd (fmul (fl 0.5) (ats_match_score l))
                                        (fmul (fl 0.3) (skill_match_score l)))
                                  (fmul (fl 0.1) c))
                            (fmul (fl 0.1) s))) \<and>
     dict_get (content resp) ''scores'' PNone =
       PDict [(''ats_compatibility_score'', PInt (py_round (ats_match_score l))),
              (''skill_match_score'', PInt (py_round (skill_match_score l))),
              (''content_quality_score'', content_score l),
              (''structure_score'', structure_score l)]"
  using assms
proof (rule analyze_resume_inversion)
  fix l
  assume l: "fst (analyze_resume_scores w jd jt rt) = Inr l"
    and resp: "content resp =
       [(''success'', PBool True),
        (''overall_score'', PInt (overall_score l)),
        (''scores'', PDict
           [(''ats_compatibility_score'', PInt (py_round (ats_match_score l))),
            (''skill_match_score'', PInt (py_round (skill_match_score l))),
            (''content_quality_score'', content_score l),
            (''structure_score'', structure_score l)]),
        (''improvements_suggestion'', PDict (fst (get_professional_summary_suggestions (llm w)
           (PInt (overall_score l)) rt jt)))]"
  from l show ?thesis
  proof (rule scores_inversion)
    fix w' c s
    assume w': "get_instance w = Inr w'"
      and c: "py_float (dict_get (fst (get_content_score (llm w) rt jt)) ''score'' (PInt 0))
                = Inr c"
      and s: "py_float (dict_get (fst (get_structure_score (llm w) rt)) ''score'' (PInt 0))
                = Inr s"
      and tech: "tech_score l = fl (fst (score (tensor_lib w) (SemanticModel_model w')
         (dict_get (fst (get_required_skills (llm w) jd)) ''technical_skills'' (PList []))
         (tech_input l)))"
      and soft: "soft_score l = fl (fst (score (tensor_lib w) (SemanticModel_model w')
         (dict_get (fst (get_required_skills (llm w) jd)) ''soft_skills'' (PList []))
         (soft_input l)))"
      and skill: "skill_match_score l
         = fadd (fmul (fl 0.75) (tech_score l)) (fmul (fl 0.25) (soft_score l))"
      and ats: "ats_match_score l
         = fl (fst (score (tensor_lib w) (SemanticModel_model w') (PStr jd) (PStr rt)))"
      and cs: "content_score l
         = dict_get (fst (get_content_score (llm w) rt jt)) ''score'' (PInt 0)"
      and ss: "structure_score l
         = dict_get (fst (get_structure_score (llm w) rt)) ''score'' (PInt 0)"
      and ov: "overall_score l =
         py_round (fadd (fadd (fadd (fmul (ats_match_score l) (fl 0.5))
                                    (fmul (skill_match_score l) (fl 0.3)))
                              (fmul c (fl 0.1)))
                        (fmul s (fl 0.1)))"
    have ov': "overall_score l =
         py_round (fadd (fadd (fadd (fmul (fl 0.5) (ats_match_score l))
                                    (fmul (fl 0.3) (skill_match_score l)))
                              (fmul (fl 0.1) c))
                        (fmul (fl 0.1) s))"
      unfolding ov
      by (simp only: fmul_commute [of "ats_match_score l"] fmul_commute [of "skill_match_score l"]
          fmul_commute [of c] fmul_commute [of s])
    have o: "dict_get (content resp) ''overall_score'' PNone =
         PInt (py_round (fadd (fadd (fadd (fmul (fl 0.5) (ats_match_score l))
                                          (fmul (fl 0.3) (skill_match_score l)))
                                    (fmul (fl 0.1) c))
                              (fmul (fl 0.1) s)))"
      unfolding resp dict_get_def by (simp add: ov')
    have d: "dict_get (content resp) ''scores'' PNone =
         PDict [(''ats_compatibility_score'', PInt (py_round (ats_match_score l))),
                (''skill_match_score'', PInt (py_round (skill_match_score l))),
                (''content_quality_score'', content_score l),
                (''structure_score'', structure_score l)]"
      unfolding resp dict_get_def by simp
    from c s have c': "py_float (content_score l) = Inr c"
      and s': "py_float (structure_score l) = Inr s"
      unfolding cs ss by simp_all
    from l w' ats tech soft skill cs ss c' s' o d show ?thesis
      by blast
  qed
qed

lemma demo_summary:
  "fst (get_professional_summary_suggestions tie_llm sc rt jt) =
     [(''key_points'', PList [PStr ''quantify results''])]"
  by (simp add: get_professional_summary_suggestions_def demo_llm_def tie_llm_def)

lemma tie_response:
  "fst (analyze_resume tie_world ''teamwork'' ''Backend Developer'' ''Short CV'') =
     Inr \<lparr> status_code = 200,
           content =
             [(''success'', PBool True),
              (''overall_score'', PInt 7),
              (''scores'', PDict
                 [(''ats_compatibility_score'', PInt 0),
                  (''skill_match_score'', PInt 0),
                  (''content_quality_score'', PInt 58),
                  (''structure_score'', PInt 7)]),
              (''improvements_suggestion'',
               PDict [(''key_points'', PList [PStr ''quantify results''])])] \<rparr>"
  unfolding fst_analyze_resume analyze_resume_try_def fst_and_then tie_scores
  by (simp add: lift_def fst_ret demo_worlds_fields demo_summary py_round_def)

theorem overall_score_formula_witness:
  "fst (analyze_resume tie_world ''teamwork'' ''Backend Developer'' ''Short CV'') =
     Inr \<lparr> status_code = 200,
           content =
             [(''success'', PBool True),
              (''overall_score'', PInt 7),
              (''scores'', PDict
                 [(''ats_compatibility_score'', PInt 0),
                  (''skill_match_score'', PInt 0),
                  (''content_quality_score'', PInt 58),
                  (''structure_score'', PInt 7)]),
              (''improvements_suggestion'',
               PDict [(''key_points'', PList [PStr ''quantify results''])])] \<rparr> \<and>
   PInt 7 = PInt (py_round (fadd (fadd (fadd (fmul (fl 0.5) 0) (fmul (fl 0.3) 0))
                                        (fmul (fl 0.1) 58))
                                  (fmul (fl 0.1) 7))) \<and>
   py_round (0.5 * 0 + 0.3 * 0 + 0.1 * 58 + 0.1 * 7) = 6"
proof -
  from overall_score_formula [OF tie_response] obtain l c s where
    l: "fst (analyze_resume_scores tie_world ''teamwork'' ''Backend Developer'' ''Short CV'')
          = Inr l"
    and c: "py_float (content_score l) = Inr c"
    and s: "py_float (structure_score l) = Inr s"
    and o: "dict_get (content \<lparr> status_code = 200,
           content =
             [(''success'', PBool True),
              (''overall_score'', PInt 7),
              (''scores'', PDict
                 [(''ats_compatibility_score'', PInt 0),
                  (''skill_match_score'', PInt 0),
                  (''content_quality_score'', PInt 58),
                  (''structure_score'', PInt 7)]),
              (''improvements_suggestion'',
               PDict [(''key_points'', PList [PStr ''quantify results''])])] \<rparr>)
          ''overall_score'' PNone =
       PInt (py_round (fadd (fadd (fadd (fmul (fl 0.5) (ats_match_score l))
                                        (fmul (fl 0.3) (skill_match_score l)))
                                  (fmul (fl 0.1) c))
                            (fmul (fl 0.1) s)))"
    by blast
  from l have l': "l = \<lparr> tech_input = PList [], soft_input = PList [],
           tech_score = 0, soft_score = 0, skill_match_score = 0,
           ats_match_score = 0, content_score = PInt 58, structure_score = PInt 7,
           overall_score = 7 \<rparr>"
    by (simp add: tie_scores)
  from c have "Inr (58 :: real) = (Inr c :: exn + real)"
    unfolding l' by (simp only: locals.select_convs py_float_small)
  moreover from s have "Inr (7 :: real) = (Inr s :: exn + real)"
    unfolding l' by (simp only: locals.select_convs py_float_small)
  ultimately have cs: "c = 58" "s = 7"
    by simp_all
  have "PInt 7 = PInt (py_round (fadd (fadd (fadd (fmul (fl 0.5) 0) (fmul (fl 0.3) 0))
                                        (fmul (fl 0.1) 58))
                                  (fmul (fl 0.1) 7)))"
    using o unfolding l' cs by (simp add: dict_get_def)
  moreover have "py_round (0.5 * 0 + 0.3 * 0 + 0.1 * 58 + 0.1 * 7) = 6"
    by (simp add: py_round_def Let_def)
  ultimately show ?thesis
    using tie_response by (intro conjI)
qed

lemma endswith_txt:
  "\<not> (endswith ''resume.txt'' ''.pdf'' \<or> endswith ''resume.txt'' ''.docx'')"
  by (simp add: endswith_def suffix_to_prefix)

text \<open>
  Claim C9. An upload whose file name ends neither in \<^verbatim>\<open>.pdf\<close> nor in \<^verbatim>\<open>.docx\<close> is rejected
  by \<^verbatim>\<open>process_uploaded_file\<close> with status 400, and the request ends there: the trace of
  external calls is empty, so no oracle was invoked and nothing was encoded.
\<close>
theorem unsupported_file_rejected:
  assumes "\<not> (endswith (filename up) ''.pdf'' \<or> endswith (filename up) ''.docx'')"
  shows "process_uploaded_file libs up =
           Inl (HTTPException 400 ''Unsupported File Format. Please upload .docx or .pdf'') \<and>
         post_analyze_resume libs w jd jt up =
           (Inl (HTTPException 400 ''Unsupported File Format. Please upload .docx or .pdf''), [])"
proof -
  have "process_uploaded_file libs up =
      Inl (HTTPException 400 ''Unsupported File Format. Please upload .docx or .pdf'')"
    using assms unfolding process_uploaded_file_def by simp
  then show ?thesis
    by (simp add: post_analyze_resume_def)
qed

theorem unsupported_file_rejected_witness:
  "\<not> (endswith (filename \<lparr> filename = ''resume.txt'', file_data = ''plain text'' \<rparr>) ''.pdf''
      \<or> endswith (filename \<lparr> filename = ''resume.txt'', file_data = ''plain text'' \<rparr>) ''.docx'') \<and>
   post_analyze_resume demo_libs demo_world ''Python'' ''Backend Developer''
       \<lparr> filename = ''resume.txt'', file_data = ''plain text'' \<rparr> =
     (Inl (HTTPException 400 ''Unsupported File Format. Please upload .docx or .pdf''), [])"
  using unsupported_file_rejected [of "\<lparr> filename = ''resume.txt'', file_data = ''plain text'' \<rparr>"
      demo_libs demo_world "''Python''" "''Backend Developer''"] endswith_txt
  by simp


section \<open>Candidate phrase lists\<close>

lemma category_skills_dump:
  "category_skills tag (map model_dump_SkillCategory cats) =
     Inr (map (\<lambda>c. PList (map PStr (skills c))) (filter (\<lambda>c. category c = tag) cats))"
  by (induction cats) (simp_all add: model_dump_SkillCategory_def dict_get_def)

lemma first_or_empty_dump:
  "first_or_empty (map (\<lambda>c. PList (map PStr (skills c))) (filter (\<lambda>c. category c = tag) cats))
     = PList (map PStr (first_with_tag tag cats))"
  by (induction cats) (simp_all add: first_or_empty_def first_with_tag_def)

lemma first_with_tag_append:
  "category c = tag \<Longrightarrow> tag \<notin> category ` set pre \<Longrightarrow>
   first_with_tag tag (pre @ c # post) = skills c"
  by (induction pre) (auto simp: first_with_tag_def)

lemma first_with_tag_absent:
  "tag \<notin> category ` set cats \<Longrightarrow> first_with_tag tag cats = []"
  by (induction cats) (auto simp: first_with_tag_def)

text \<open>
  Claim C10. For a resume text that is empty or shorter than 50 characters,
  \<^verbatim>\<open>extract_all_skills\<close> returns an empty \<^verbatim>\<open>skill_sets\<close> with an error message and an empty
  trace: the oracle is not invoked. Whenever the pipeline then computes its scores, the
  technical and the soft candidate phrase lists are both empty.
\<close>
theorem short_resume_skips_oracle:
  assumes "text = [] \<or> length text < 50"
  shows "extract_all_skills orc text =
           ([(''skill_sets'', PList []),
             (''error'', PStr ''Resume text is too short for skill extraction.'')], []) \<and>
         (fst (analyze_resume_scores w jd jt text) = Inr l \<longrightarrow>
            tech_input l = PList [] \<and> soft_input l = PList [])"
proof (intro conjI impI)
  show short: "extract_all_skills orc text =
           ([(''skill_sets'', PList []),
             (''error'', PStr ''Resume text is too short for skill extraction.'')], [])" for orc
    using assms by (auto simp: extract_all_skills_def)
  assume "fst (analyze_resume_scores w jd jt text) = Inr l"
  then show "tech_input l = PList []" "soft_input l = PList []"
  proof (rule_tac [!] scores_inversion)
    fix sets res_tech res_soft
    assume sets: "py_iter (dict_get (fst (extract_all_skills (llm w) text)) ''skill_sets''
        (PList [])) = Inr sets"
      and tech: "category_skills ''TECHNICAL'' sets = Inr res_tech"
      and soft: "category_skills ''SOFT'' sets = Inr res_soft"
      and ti: "tech_input l = first_or_empty res_tech"
      and si: "soft_input l = first_or_empty res_soft"
    from sets have "sets = []"
      by (simp add: short dict_get_def)
    with tech soft have "res_tech = []" "res_soft = []"
      by simp_all
    with ti si show "tech_input l = PList []" "soft_input l = PList []"
      by (simp_all add: first_or_empty_def)
  qed
qed


theorem short_resume_skips_oracle_witness:
  "(''Short CV'' = [] \<or> length ''Short CV'' < 50) \<and>
   extract_all_skills demo_llm ''Short CV'' =
     ([(''skill_sets'', PList []),
       (''error'', PStr ''Resume text is too short for skill extraction.'')], []) \<and>
   fst (analyze_resume_scores demo_world ''Python'' ''Backend Developer'' ''Short CV'') =
     Inr \<lparr> tech_input = PList [], soft_input = PList [],
           tech_score = 0, soft_score = 0, skill_match_score = 0,
           ats_match_score = fl 38.46, content_score = PInt 80, structure_score = PInt 68,
           overall_score = 34 \<rparr> \<and>
   tech_input \<lparr> tech_input = PList [], soft_input = PList [],
           tech_score = 0, soft_score = 0, skill_match_score = 0,
           ats_match_score = fl 38.46, content_score = PInt 80, structure_score = PInt 68,
           overall_score = 34 \<rparr> = PList []"
proof -
  have short: "''Short CV'' = [] \<or> length ''Short CV'' < 50"
    by simp
  show ?thesis
    using short_resume_skips_oracle [OF short, of demo_llm demo_world "''Python''"
        "''Backend Developer''"] demo_scores_short short
    by simp
qed

text \<open>
  Claim C5. Let the \<^verbatim>\<open>skill_sets\<close> returned by \<^verbatim>\<open>extract_all_skills\<close> be the dump of the
  categories \<open>cats\<close>. Whenever the pipeline computes its scores, the technical phrase list
  is the skills of the first entry of \<open>cats\<close> tagged exactly \<^verbatim>\<open>TECHNICAL\<close>, the empty list
  when there is none, and likewise for \<^verbatim>\<open>SOFT\<close>; with no \<^verbatim>\<open>TECHNICAL\<close> entry \<^verbatim>\<open>tech_score\<close> is 0.
  The first entry with a tag decides alone: whatever follows it is ignored.
\<close>
theorem first_matching_category_only:
  assumes "fst (analyze_resume_scores w jd jt rt) = Inr l"
      and "dict_get (fst (extract_all_skills (llm w) rt)) ''skill_sets'' (PList [])
             = PList (map model_dump_SkillCategory cats)"
  shows "tech_input l = PList (map PStr (first_with_tag ''TECHNICAL'' cats)) \<and>
         soft_input l = PList (map PStr (first_with_tag ''SOFT'' cats)) \<and>
         (''TECHNICAL'' \<notin> category ` set cats \<longrightarrow> tech_input l = PList [] \<and> tech_score l = 0) \<and>
         (\<forall>tag pre c post. category c = tag \<and> tag \<notin> category ` set pre \<longrightarrow>
            first_with_tag tag (pre @ c # post) = skills c)"
  using assms(1)
proof (rule scores_inversion)
  fix w' sets res_tech res_soft
  assume sets: "py_iter (dict_get (fst (extract_all_skills (llm w) rt)) ''skill_sets''
        (PList [])) = Inr sets"
    and tech: "category_skills ''TECHNICAL'' sets = Inr res_tech"
    and soft: "category_skills ''SOFT'' sets = Inr res_soft"
    and ti: "tech_input l = first_or_empty res_tech"
    and si: "soft_input l = first_or_empty res_soft"
    and ts: "tech_score l = fl (fst (score (tensor_lib w) (SemanticModel_model w')
       (dict_get (fst (get_required_skills (llm w) jd)) ''technical_skills'' (PList []))
       (tech_input l)))"
  from sets assms(2) have s: "sets = map model_dump_SkillCategory cats"
    by simp
  from tech ti have t: "tech_input l = PList (map PStr (first_with_tag ''TECHNICAL'' cats))"
    unfolding s category_skills_dump by (auto simp: first_or_empty_dump)
  from soft si have so: "soft_input l = PList (map PStr (first_with_tag ''SOFT'' cats))"
    unfolding s category_skills_dump by (auto simp: first_or_empty_dump)
  have none: "tech_input l = PList [] \<and> tech_score l = 0"
    if "''TECHNICAL'' \<notin> category ` set cats"
  proof -
    have "tech_input l = PList []"
      using t first_with_tag_absent [OF that] by simp
    then show ?thesis
      using ts by (simp add: score_empty_right fl_zero)
  qed
  show ?thesis
    using t so none first_with_tag_append by blast
qed


lemma demo_skill_sets:
  "dict_get (fst (extract_all_skills (llm demo_world) demo_resume)) ''skill_sets'' (PList [])
     = PList (map model_dump_SkillCategory demo_cats)"
  by (simp only: demo_worlds_fields demo_skill_sets_raw)

lemma demo_skill_sets_short:
  "dict_get (fst (extract_all_skills (llm demo_world) ''Short CV'')) ''skill_sets'' (PList [])
     = PList (map model_dump_SkillCategory [])"
  by (simp add: demo_skill_sets_raw)

theorem first_matching_category_only_witness:
  "fst (analyze_resume_scores demo_world ''Python'' ''Backend Developer'' demo_resume) =
     Inr \<lparr> tech_input = PList [PStr ''Python'', PStr ''SQL''], soft_input = PList [],
           tech_score = 100, soft_score = 0, skill_match_score = 75,
           ats_match_score = fl 38.46, content_score = PInt 80, structure_score = PInt 68,
           overall_score = 57 \<rparr> \<and>
   dict_get (fst (extract_all_skills (llm demo_world) demo_resume)) ''skill_sets'' (PList [])
     = PList (map model_dump_SkillCategory demo_cats) \<and>
   first_with_tag ''TECHNICAL'' demo_cats = [''Python'', ''SQL''] \<and>
   first_with_tag ''SOFT'' demo_cats = [] \<and>
   category (SkillCategory ''TECHNICAL'' [''Python'', ''SQL'']) = ''TECHNICAL'' \<and>
   ''TECHNICAL'' \<notin> category ` set [SkillCategory ''technical'' [''Excel'']] \<and>
   fst (analyze_resume_scores demo_world ''Python'' ''Backend Developer'' ''Short CV'') =
     Inr \<lparr> tech_input = PList [], soft_input = PList [],
           tech_score = 0, soft_score = 0, skill_match_score = 0,
           ats_match_score = fl 38.46, content_score = PInt 80, structure_score = PInt 68,
           overall_score = 34 \<rparr> \<and>
   dict_get (fst (extract_all_skills (llm demo_world) ''Short CV'')) ''skill_sets'' (PList [])
     = PList (map model_dump_SkillCategory []) \<and>
   ''TECHNICAL'' \<notin> category ` set ([] :: SkillCategory list)"
proof -
  note full = first_matching_category_only [OF demo_scores demo_skill_sets]
  note short = first_matching_category_only [OF demo_scores_short demo_skill_sets_short]
  from full have "PList [PStr ''Python'', PStr ''SQL'']
      = PList (map PStr (first_with_tag ''TECHNICAL'' demo_cats))"
    and "PList [] = PList (map PStr (first_with_tag ''SOFT'' demo_cats))"
    by simp_all
  then have tags: "first_with_tag ''TECHNICAL'' demo_cats = [''Python'', ''SQL'']"
    "first_with_tag ''SOFT'' demo_cats = []"
    by (auto simp: map_eq_Cons_conv)
  from short have "''TECHNICAL'' \<notin> category ` set ([] :: SkillCategory list)"
    by simp
  with tags show ?thesis
    using demo_scores demo_skill_sets demo_scores_short demo_skill_sets_short by simp
qed

section \<open>Defaults of the oracle clients\<close>


lemma failing_clients_conform:
  "conforms CandidateSkills_schema (fst (extract_all_skills (failing_llm e) demo_resume))"
  "conforms RequiredSkillsResponse_schema (fst (get_required_skills (failing_llm e) jd))"
  "conforms ContentScoreResponse_schema (fst (get_content_score (failing_llm e) rt jt))"
  "conforms StructureScoreResponse_schema (fst (get_structure_score (failing_llm e) rt))"
  by (simp_all add: conforms_def CandidateSkills_schema_def RequiredSkillsResponse_schema_def
      ContentScoreResponse_schema_def StructureScoreResponse_schema_def
      extract_all_skills_def get_required_skills_def get_content_score_def
      get_structure_score_def failing_llm_def demo_resume_def)

lemma successful_summary_conforms:
  "invoke_professional_summary orc sc rt jt = Inr r \<Longrightarrow>
   conforms ProfessionalSummaryResponse_schema
     (fst (get_professional_summary_suggestions orc sc rt jt))"
  by (cases r)
     (simp add: conforms_def ProfessionalSummaryResponse_schema_def
        get_professional_summary_suggestions_def list_all_iff)

text \<open>
  Claim C6. Each client returns a default value of its declared schema when its oracle
  raises. The four clients above do. \<^verbatim>\<open>get_professional_summary_suggestions\<close> does not: when
  its oracle raises, it returns the keys \<^verbatim>\<open>options\<close> and \<^verbatim>\<open>error\<close>, and the field \<^verbatim>\<open>key_points\<close>
  that \<^verbatim>\<open>ProfessionalSummaryResponse\<close> declares is missing. It still returns a dictionary and
  raises nothing.
\<close>
theorem summary_fallback_not_in_schema:
  "get_professional_summary_suggestions (failing_llm (Exception ''timed out'')) (PInt 57)
       demo_resume ''Backend Developer'' =
     ([(''options'', PList []), (''error'', PStr ''Error generating summary: timed out'')],
      [OracleCall ''get_professional_summary_suggestions'']) \<and>
   map_of (fst (get_professional_summary_suggestions (failing_llm (Exception ''timed out''))
       (PInt 57) demo_resume ''Backend Developer'')) ''key_points'' = None \<and>
   \<not> conforms ProfessionalSummaryResponse_schema
       (fst (get_professional_summary_suggestions (failing_llm (Exception ''timed out''))
          (PInt 57) demo_resume ''Backend Developer''))"
  by (simp add: get_professional_summary_suggestions_def failing_llm_def conforms_def
      ProfessionalSummaryResponse_schema_def)



end
